theory Spec2Isabelle
  imports Complex_Main
begin

section \<open>Overview\<close>

text \<open>
  A shallow embedding of the data pipeline (nasa-data.js), the science module (science.js)
  and the catalog search (database.js) of the exoplanet explorer. Objects are records whose
  properties are typed: a numeric property holds a number, \<open>null\<close> or \<open>undefined\<close>, a
  string property a string, \<open>null\<close> or \<open>undefined\<close>. Functions that mutate their argument
  return the updated record; \<open>localStorage\<close>, the clock and the remote fetch are explicit
  arguments; arrays that are copied, filtered and sorted in place live in a store.
\<close>


section \<open>JavaScript values\<close>

text \<open>
  A JavaScript Number is modelled as an exact real, together with the three special
  values the source can produce or compare against: \<open>NaN\<close> and the two infinities.
  Arithmetic on finite values is exact (rounding to binary64, overflow to an infinity and
  the sign of zero are not represented); the special values follow IEEE 754 as
  ECMAScript prescribes it.
\<close>

datatype jsnum = NaN | NegInf | Fin real | PosInf

text \<open>The relational operators: every comparison with \<open>NaN\<close> is false.\<close>

fun js_lt :: "jsnum \<Rightarrow> jsnum \<Rightarrow> bool" where
  "js_lt (Fin a) (Fin b) = (a < b)"
| "js_lt (Fin a) PosInf = True"
| "js_lt NegInf (Fin b) = True"
| "js_lt NegInf PosInf = True"
| "js_lt a b = False"

definition js_gt :: "jsnum \<Rightarrow> jsnum \<Rightarrow> bool" where
  "js_gt a b = js_lt b a"

definition js_le :: "jsnum \<Rightarrow> jsnum \<Rightarrow> bool" where
  "js_le a b = (a \<noteq> NaN \<and> b \<noteq> NaN \<and> \<not> js_lt b a)"

definition js_ge :: "jsnum \<Rightarrow> jsnum \<Rightarrow> bool" where
  "js_ge a b = js_le b a"

fun js_sgn :: "jsnum \<Rightarrow> real" where
  "js_sgn NaN = 0"
| "js_sgn NegInf = -1"
| "js_sgn (Fin a) = sgn a"
| "js_sgn PosInf = 1"

definition signed_inf :: "real \<Rightarrow> jsnum" where
  "signed_inf s = (if s = 0 then NaN else if 0 < s then PosInf else NegInf)"

fun js_neg :: "jsnum \<Rightarrow> jsnum" where
  "js_neg NaN = NaN"
| "js_neg NegInf = PosInf"
| "js_neg (Fin a) = Fin (- a)"
| "js_neg PosInf = NegInf"

fun js_add :: "jsnum \<Rightarrow> jsnum \<Rightarrow> jsnum" where
  "js_add NaN b = NaN"
| "js_add a NaN = NaN"
| "js_add (Fin a) (Fin b) = Fin (a + b)"
| "js_add (Fin a) b = b"
| "js_add a (Fin b) = a"
| "js_add a b = (if a = b then a else NaN)"

definition js_sub :: "jsnum \<Rightarrow> jsnum \<Rightarrow> jsnum" where
  "js_sub a b = js_add a (js_neg b)"

fun js_mul :: "jsnum \<Rightarrow> jsnum \<Rightarrow> jsnum" where
  "js_mul NaN b = NaN"
| "js_mul a NaN = NaN"
| "js_mul (Fin a) (Fin b) = Fin (a * b)"
| "js_mul a b = signed_inf (js_sgn a * js_sgn b)"

text \<open>Division; a zero divisor is taken as \<open>+0\<close>.\<close>

fun js_div :: "jsnum \<Rightarrow> jsnum \<Rightarrow> jsnum" where
  "js_div NaN b = NaN"
| "js_div a NaN = NaN"
| "js_div (Fin a) (Fin b) = (if b = 0 then signed_inf (sgn a) else Fin (a / b))"
| "js_div (Fin a) b = Fin 0"
| "js_div a (Fin b) = signed_inf (js_sgn a * (if b < 0 then -1 else 1))"
| "js_div a b = NaN"

fun js_abs :: "jsnum \<Rightarrow> jsnum" where
  "js_abs NaN = NaN"
| "js_abs (Fin a) = Fin \<bar>a\<bar>"
| "js_abs a = PosInf"

fun js_sqrt :: "jsnum \<Rightarrow> jsnum" where
  "js_sqrt (Fin a) = (if a < 0 then NaN else Fin (sqrt a))"
| "js_sqrt PosInf = PosInf"
| "js_sqrt a = NaN"

fun js_round :: "jsnum \<Rightarrow> jsnum" where
  "js_round (Fin a) = Fin (of_int \<lfloor>a + 1 / 2\<rfloor>)"
| "js_round a = a"

fun js_floor :: "jsnum \<Rightarrow> jsnum" where
  "js_floor (Fin a) = Fin (of_int \<lfloor>a\<rfloor>)"
| "js_floor a = a"

definition js_min :: "jsnum \<Rightarrow> jsnum \<Rightarrow> jsnum" where
  "js_min a b = (if a = NaN \<or> b = NaN then NaN else if js_lt b a then b else a)"

definition js_max :: "jsnum \<Rightarrow> jsnum \<Rightarrow> jsnum" where
  "js_max a b = (if a = NaN \<or> b = NaN then NaN else if js_lt a b then b else a)"

definition is_int :: "real \<Rightarrow> bool" where
  "is_int y = (y = of_int \<lfloor>y\<rfloor>)"

definition is_odd_int :: "real \<Rightarrow> bool" where
  "is_odd_int y = (is_int y \<and> odd \<lfloor>y\<rfloor>)"

text \<open>\<open>Math.pow\<close> (Number::exponentiate), case by case in the order of the standard.\<close>

fun js_pow :: "jsnum \<Rightarrow> jsnum \<Rightarrow> jsnum" where
  "js_pow b NaN = NaN"
| "js_pow b (Fin y) =
     (if y = 0 then Fin 1
      else case b of
        NaN \<Rightarrow> NaN
      | PosInf \<Rightarrow> (if 0 < y then PosInf else Fin 0)
      | NegInf \<Rightarrow> (if 0 < y then (if is_odd_int y then NegInf else PosInf) else Fin 0)
      | Fin x \<Rightarrow>
          (if x = 0 then (if 0 < y then Fin 0 else PosInf)
           else if 0 < x then Fin (x powr y)
           else if is_int y then Fin (x powi \<lfloor>y\<rfloor>)
           else NaN))"
| "js_pow b PosInf =
     (case b of
        NaN \<Rightarrow> NaN
      | Fin x \<Rightarrow> (if 1 < \<bar>x\<bar> then PosInf else if \<bar>x\<bar> = 1 then NaN else Fin 0)
      | _ \<Rightarrow> PosInf)"
| "js_pow b NegInf =
     (case b of
        NaN \<Rightarrow> NaN
      | Fin x \<Rightarrow> (if 1 < \<bar>x\<bar> then Fin 0 else if \<bar>x\<bar> = 1 then NaN else PosInf)
      | _ \<Rightarrow> Fin 0)"

text \<open>
  A property of an object is \<open>undefined\<close> (absent), \<open>null\<close>, or a value. The source
  tests \<open>x == null\<close>, which holds of both \<open>undefined\<close> and \<open>null\<close>.
\<close>

datatype 'a nullable = Undefined | Null | Val 'a

fun nullish :: "'a nullable \<Rightarrow> bool" where
  "nullish (Val x) = False"
| "nullish v = True"

text \<open>ToNumber on a numeric property: \<open>undefined\<close> is \<open>NaN\<close>, \<open>null\<close> is 0.\<close>

fun to_number :: "jsnum nullable \<Rightarrow> jsnum" where
  "to_number Undefined = NaN"
| "to_number Null = Fin 0"
| "to_number (Val x) = x"

section \<open>The planet record of the data pipeline (nasa-data.js)\<close>

record planet =
  name :: string
  system :: string
  distance :: "jsnum nullable"
  radius :: "jsnum nullable"
  mass :: "jsnum nullable"
  period :: "jsnum nullable"
  semiMajorAxis :: "jsnum nullable"
  eqTemp :: "jsnum nullable"
  eccentricity :: "jsnum nullable"
  inclination :: "jsnum nullable"
  starType :: "string nullable"
  starTemp :: "jsnum nullable"
  starMass :: "jsnum nullable"
  starLum :: "jsnum nullable"
  starLumLog :: "jsnum nullable"
  discovered :: "jsnum nullable"
  discoveryMethod :: "string nullable"
  discoveryFacility :: "string nullable"
  discoveryRef :: "string nullable"
  ra :: "jsnum nullable"
  dec :: "jsnum nullable"
  vMag :: "jsnum nullable"
  kMag :: "jsnum nullable"
  controversial :: bool
  source :: string
  nasaRaw :: bool
  eqTempEstimated :: bool

section \<open>validateAndClean\<close>

record null_fields =
  nf_distance :: nat
  nf_radius :: nat
  nf_mass :: nat
  nf_eqTemp :: nat
  nf_period :: nat
  nf_semiMajorAxis :: nat

record bad_value =
  bv_name :: string
  bv_field :: string
  bv_value :: jsnum

text \<open>
  \<open>nameCounts\<close> is a plain object literal used as a dictionary, so a lookup that finds no
  own property continues in \<open>Object.prototype\<close>. For a key that names a method of
  \<open>Object.prototype\<close> the expression \<open>(nameCounts[key] || 0) + 1\<close> therefore adds 1 to a
  function, which is string concatenation: the property becomes a text that is not a
  number. Assigning a primitive to \<open>__proto__\<close> is ignored, so that key never becomes an
  own property.
\<close>

datatype count_val = Count nat | Text

definition object_prototype_methods :: "string list" where
  "object_prototype_methods =
     [''constructor'', ''hasOwnProperty'', ''isPrototypeOf'', ''propertyIsEnumerable'',
      ''toLocaleString'', ''toString'', ''valueOf'', ''__defineGetter__'',
      ''__defineSetter__'', ''__lookupGetter__'', ''__lookupSetter__'']"

fun assignProperty :: "string \<Rightarrow> count_val \<Rightarrow> (string \<times> count_val) list \<Rightarrow> (string \<times> count_val) list" where
  "assignProperty k v [] = [(k, v)]"
| "assignProperty k v ((k', v') # m) =
     (if k = k' then (k, v) # m else (k', v') # assignProperty k v m)"

definition countName :: "(string \<times> count_val) list \<Rightarrow> string \<Rightarrow> (string \<times> count_val) list" where
  "countName nameCounts key =
     (case map_of nameCounts key of
        Some (Count c) \<Rightarrow> assignProperty key (Count (c + 1)) nameCounts
      | Some Text \<Rightarrow> assignProperty key Text nameCounts
      | None \<Rightarrow>
          if key = ''__proto__'' then nameCounts
          else if key \<in> set object_prototype_methods then assignProperty key Text nameCounts
          else assignProperty key (Count 1) nameCounts)"

text \<open>The comparison \<open>count > 1\<close>: a text that is not a number converts to \<open>NaN\<close>.\<close>

fun count_gt_1 :: "count_val \<Rightarrow> bool" where
  "count_gt_1 (Count c) = (1 < c)"
| "count_gt_1 Text = False"

text \<open>
  \<open>Object.entries\<close> lists the keys that are array indices first, in ascending numeric
  order, then the other keys in the order of their creation.
\<close>

definition digit_chars :: string where
  "digit_chars = ''0123456789''"

fun decimal_value :: "nat \<Rightarrow> string \<Rightarrow> nat" where
  "decimal_value acc [] = acc"
| "decimal_value acc (c # cs) = decimal_value (10 * acc + (of_char c - 48)) cs"

definition is_array_index :: "string \<Rightarrow> bool" where
  "is_array_index s =
     (s \<noteq> [] \<and> list_all (\<lambda>c. c \<in> set digit_chars) s \<and> (s = ''0'' \<or> hd s \<noteq> CHR ''0'')
      \<and> decimal_value 0 s < 4294967295)"

definition object_entries :: "(string \<times> count_val) list \<Rightarrow> (string \<times> count_val) list" where
  "object_entries m =
     sort_key (\<lambda>(k, v). decimal_value 0 k) (filter (\<lambda>(k, v). is_array_index k) m)
     @ filter (\<lambda>(k, v). \<not> is_array_index k) m"

record report =
  totalInput :: nat
  nullFields :: null_fields
  badValues :: "bad_value list"
  duplicates :: "(string \<times> count_val) list"
  controversialCount :: nat
  cleaned :: nat
  passed :: nat
  totalOutput :: nat

definition tallyNulls :: "planet \<Rightarrow> null_fields \<Rightarrow> null_fields" where
  "tallyNulls p nf =
     \<lparr> nf_distance = nf_distance nf + (if nullish (distance p) then 1 else 0),
       nf_radius = nf_radius nf + (if nullish (radius p) then 1 else 0),
       nf_mass = nf_mass nf + (if nullish (mass p) then 1 else 0),
       nf_eqTemp = nf_eqTemp nf + (if nullish (eqTemp p) then 1 else 0),
       nf_period = nf_period nf + (if nullish (period p) then 1 else 0),
       nf_semiMajorAxis = nf_semiMajorAxis nf + (if nullish (semiMajorAxis p) then 1 else 0) \<rparr>"

text \<open>The range checks (lines 238 to 253) flag a record; they never change or drop it.\<close>

definition rangeChecks :: "planet \<Rightarrow> bad_value list" where
  "rangeChecks p =
     (case radius p of
        Val r \<Rightarrow> if js_le r (Fin 0) \<or> js_gt r (Fin 100)
                 then [\<lparr> bv_name = name p, bv_field = ''radius'', bv_value = r \<rparr>] else []
      | _ \<Rightarrow> [])
     @ (case mass p of
        Val m \<Rightarrow> if js_le m (Fin 0) \<or> js_gt m (Fin 100000)
                 then [\<lparr> bv_name = name p, bv_field = ''mass'', bv_value = m \<rparr>] else []
      | _ \<Rightarrow> [])
     @ (case distance p of
        Val d \<Rightarrow> if js_le d (Fin 0)
                 then [\<lparr> bv_name = name p, bv_field = ''distance'', bv_value = d \<rparr>] else []
      | _ \<Rightarrow> [])
     @ (case eqTemp p of
        Val t \<Rightarrow> if js_lt t (Fin 2) \<or> js_gt t (Fin 10000)
                 then [\<lparr> bv_name = name p, bv_field = ''eqTemp'', bv_value = t \<rparr>] else []
      | _ \<Rightarrow> [])"

text \<open>The default filling (lines 256 to 269), one assignment after the other.\<close>

definition fillDistance :: "planet \<Rightarrow> planet" where
  "fillDistance p = (if nullish (distance p) then p\<lparr>distance := Val (Fin 0)\<rparr> else p)"

definition fillRadius :: "planet \<Rightarrow> planet" where
  "fillRadius p = (if nullish (radius p) then p\<lparr>radius := Val (Fin 1)\<rparr> else p)"

definition estimateMass :: "jsnum \<Rightarrow> jsnum" where
  "estimateMass r = (if js_gt r (Fin 4) then js_mul r (Fin 5) else js_pow r (Fin (5 / 2)))"

text \<open>\<open>fillMass\<close> runs after \<open>fillRadius\<close>, so it reads the radius already filled.\<close>

definition fillMass :: "planet \<Rightarrow> planet" where
  "fillMass p =
     (if nullish (mass p) then p\<lparr>mass := Val (estimateMass (to_number (radius p)))\<rparr> else p)"

definition estimateEqTemp :: "jsnum \<Rightarrow> jsnum \<Rightarrow> jsnum" where
  "estimateEqTemp lum a =
     js_round (js_div (js_mul (Fin 278) (js_pow lum (Fin (1 / 4)))) (js_sqrt a))"

definition fillEqTemp :: "planet \<Rightarrow> planet" where
  "fillEqTemp p =
     (if nullish (eqTemp p)
      then (case (starLum p, semiMajorAxis p) of
              (Val lum, Val a) \<Rightarrow>
                (if js_gt a (Fin 0) then p\<lparr>eqTemp := Val (estimateEqTemp lum a)\<rparr>
                 else p\<lparr>eqTemp := Val (Fin 300)\<rparr>)
            | _ \<Rightarrow> p\<lparr>eqTemp := Val (Fin 300)\<rparr>)\<lparr>eqTempEstimated := True\<rparr>
      else p)"

definition fillPeriod :: "planet \<Rightarrow> planet" where
  "fillPeriod p = (if nullish (period p) then p\<lparr>period := Val (Fin 0)\<rparr> else p)"

definition fillSemiMajorAxis :: "planet \<Rightarrow> planet" where
  "fillSemiMajorAxis p =
     (if nullish (semiMajorAxis p) then p\<lparr>semiMajorAxis := Val (Fin 0)\<rparr> else p)"

definition fillDefaults :: "planet \<Rightarrow> planet" where
  "fillDefaults p =
     fillSemiMajorAxis (fillPeriod (fillEqTemp (fillMass (fillRadius (fillDistance p)))))"

text \<open>
  The main loop. \<open>seenNames\<close> is a \<open>Set\<close>; the report and the output array are threaded
  through. Both branches of the final \<open>if (!bad)\<close> push the record and count it as passed.
\<close>

fun cleanLoop :: "planet list \<Rightarrow> string list \<Rightarrow> report \<Rightarrow> planet list \<Rightarrow> planet list \<times> report" where
  "cleanLoop [] seenNames rep out = (out, rep)"
| "cleanLoop (p # ps) seenNames rep out =
     (if name p \<in> set seenNames
      then cleanLoop ps seenNames (rep\<lparr>cleaned := cleaned rep + 1\<rparr>) out
      else cleanLoop ps (name p # seenNames)
             (rep\<lparr> nullFields := tallyNulls p (nullFields rep),
                   controversialCount := controversialCount rep + (if controversial p then 1 else 0),
                   badValues := badValues rep @ rangeChecks p,
                   passed := passed rep + 1 \<rparr>)
             (out @ [fillDefaults p]))"

definition initialReport :: "planet list \<Rightarrow> report" where
  "initialReport planets =
     \<lparr> totalInput = length planets,
       nullFields = \<lparr> nf_distance = 0, nf_radius = 0, nf_mass = 0, nf_eqTemp = 0,
                      nf_period = 0, nf_semiMajorAxis = 0 \<rparr>,
       badValues = [],
       duplicates = filter (\<lambda>(n, c). count_gt_1 c)
                      (object_entries (foldl countName [] (map name planets))),
       controversialCount = 0,
       cleaned = 0,
       passed = 0,
       totalOutput = 0 \<rparr>"

definition validateAndClean :: "planet list \<Rightarrow> planet list \<times> report" where
  "validateAndClean planets =
     (case cleanLoop planets [] (initialReport planets) [] of
        (out, rep) \<Rightarrow> (out, rep\<lparr>totalOutput := length out\<rparr>))"

section \<open>Specification-side predicates and example inputs for validateAndClean\<close>

text \<open>
  The default filling the claim describes: radius 1.0; mass
  \<open>radius > 4 ? radius * 5 : radius ^ 2.5\<close>; eqTemp the rounded estimate
  \<open>278 * starLum ^ 0.25 / sqrt(semiMajorAxis)\<close> when the luminosity and a positive axis
  are available, else 300; period 0; semiMajorAxis 0. \<open>p\<close> is the record as it came in,
  \<open>q\<close> the record in the output.
\<close>

definition filledAsSpecified :: "planet \<Rightarrow> planet \<Rightarrow> bool" where
  "filledAsSpecified p q =
     (radius q = (if nullish (radius p) then Val (Fin 1) else radius p)
      \<and> mass q = (if nullish (mass p)
                  then Val (if js_gt (to_number (radius q)) (Fin 4)
                            then js_mul (to_number (radius q)) (Fin 5)
                            else js_pow (to_number (radius q)) (Fin (5 / 2)))
                  else mass p)
      \<and> eqTemp q = (if nullish (eqTemp p)
                    then (if \<not> nullish (starLum p) \<and> \<not> nullish (semiMajorAxis p)
                             \<and> js_gt (to_number (semiMajorAxis p)) (Fin 0)
                          then Val (js_round (js_div
                                 (js_mul (Fin 278) (js_pow (to_number (starLum p)) (Fin (1 / 4))))
                                 (js_sqrt (to_number (semiMajorAxis p)))))
                          else Val (Fin 300))
                    else eqTemp p)
      \<and> period q = (if nullish (period p) then Val (Fin 0) else period p)
      \<and> semiMajorAxis q = (if nullish (semiMajorAxis p) then Val (Fin 0) else semiMajorAxis p))"

definition nonNegative :: "jsnum nullable \<Rightarrow> bool" where
  "nonNegative v = (case v of Val x \<Rightarrow> js_ge x (Fin 0) | _ \<Rightarrow> False)"

definition flagged :: "report \<Rightarrow> string \<Rightarrow> string \<Rightarrow> jsnum nullable \<Rightarrow> bool" where
  "flagged rep n f v =
     (case v of
        Val x \<Rightarrow> js_le x (Fin 0) \<longrightarrow> \<lparr> bv_name = n, bv_field = f, bv_value = x \<rparr> \<in> set (badValues rep)
      | _ \<Rightarrow> True)"

definition examplePlanet :: planet where
  "examplePlanet =
     \<lparr> name = ''Kepler-22 b'', system = ''Kepler-22'',
       distance = Val (Fin 635), radius = Val (Fin 2), mass = Null, period = Val (Fin 290),
       semiMajorAxis = Undefined, eqTemp = Null, eccentricity = Null, inclination = Null,
       starType = Val ''G5V'', starTemp = Val (Fin 5518), starMass = Val (Fin 1),
       starLum = Val (Fin 1), starLumLog = Val (Fin 0), discovered = Val (Fin 2011),
       discoveryMethod = Val ''Transit'', discoveryFacility = Null, discoveryRef = Null,
       ra = Val (Fin 289), dec = Val (Fin 47), vMag = Val (Fin 11), kMag = Null,
       controversial = False, source = ''NASA Exoplanet Archive'', nasaRaw = True,
       eqTempEstimated = False \<rparr>"

definition negativePlanet :: planet where
  "negativePlanet =
     examplePlanet\<lparr> name := ''Negative b'', radius := Val (Fin (- 1)), mass := Val (Fin (- 3)),
                    distance := Val (Fin (- 10)) \<rparr>"

definition constructorPlanet :: planet where
  "constructorPlanet = examplePlanet\<lparr> name := ''constructor'' \<rparr>"

definition constructorPlanet2 :: planet where
  "constructorPlanet2 = examplePlanet\<lparr> name := ''constructor'', radius := Val (Fin 3) \<rparr>"

definition exampleInput :: "planet list" where
  "exampleInput = [examplePlanet, negativePlanet, examplePlanet]"

text \<open>A name that no member of \<open>Object.prototype\<close> bears.\<close>

definition ordinaryName :: "string \<Rightarrow> bool" where
  "ordinaryName n = (n \<noteq> ''__proto__'' \<and> n \<notin> set object_prototype_methods)"

section \<open>Strings\<close>

definition digit_of :: "nat \<Rightarrow> char" where
  "digit_of d = ''0123456789'' ! d"

fun string_of_nat :: "nat \<Rightarrow> string" where
  "string_of_nat n =
     (if n < 10 then [digit_of n] else string_of_nat (n div 10) @ [digit_of (n mod 10)])"

declare string_of_nat.simps [simp del]

text \<open>\<open>String(n)\<close> for an integer below \<open>10^21\<close> in absolute value.\<close>

definition string_of_int :: "int \<Rightarrow> string" where
  "string_of_int i = (if i < 0 then CHR ''-'' # string_of_nat (nat (- i)) else string_of_nat (nat i))"

fun startsWith :: "string \<Rightarrow> string \<Rightarrow> bool" where
  "startsWith s [] = True"
| "startsWith [] (c # cs) = False"
| "startsWith (x # xs) (c # cs) = (x = c \<and> startsWith xs cs)"

text \<open>\<open>String.prototype.includes\<close>: the search string occurs at some position.\<close>

fun strIncludes :: "string \<Rightarrow> string \<Rightarrow> bool" where
  "strIncludes [] q = (q = [])"
| "strIncludes (x # xs) q = (startsWith (x # xs) q \<or> strIncludes xs q)"

section \<open>Cache management (nasa-data.js, lines 42 to 107)\<close>

definition CACHE_VERSION :: int where
  "CACHE_VERSION = 2"

definition CACHE_MAX_AGE_MS :: int where
  "CACHE_MAX_AGE_MS = 24 * 60 * 60 * 1000"

definition CACHE_STALE_AGE_MS :: int where
  "CACHE_STALE_AGE_MS = 7 * 24 * 60 * 60 * 1000"

text \<open>
  \<open>computeValidationReport\<close> spreads the report and adds \<open>stats\<close>. The medians are kept
  as numbers (\<open>None\<close> for \<open>'N/A'\<close>); their rendering by \<open>toFixed\<close> is not represented.
\<close>

record stats =
  medianRadius :: "jsnum option"
  medianMass :: "jsnum option"
  medianTemp :: "jsnum option"
  medianDist :: "jsnum option"
  discoveryMethods :: "string list"
  yearMin :: jsnum
  yearMax :: jsnum

record full_report = report +
  stats :: stats

record cache_meta =
  version :: int
  fetchedAt :: int
  recordCount :: nat
  meta_report :: "full_report option"
  truncated :: bool
  cachedCount :: nat

text \<open>
  One \<open>localStorage\<close> entry as \<open>getCacheMeta\<close> and \<open>getCachedData\<close> see it: reading or
  parsing it throws, it is absent (or the text \<open>null\<close>), or it parses to a value. When
  \<open>writable\<close> is false every \<open>setItem\<close> throws (quota exceeded, storage disabled).
\<close>

datatype 'a stored = Unreadable | Absent | Stored 'a

record storage =
  metaItem :: "cache_meta stored"
  dataItem :: "planet list stored"
  writable :: bool

text \<open>Both readers catch every exception and return \<open>null\<close>.\<close>

definition getCacheMeta :: "storage \<Rightarrow> cache_meta option" where
  "getCacheMeta st = (case metaItem st of Stored m \<Rightarrow> Some m | _ \<Rightarrow> None)"


definition isCacheFresh :: "storage \<Rightarrow> int \<Rightarrow> bool" where
  "isCacheFresh st now =
     (case getCacheMeta st of
        None \<Rightarrow> False
      | Some m \<Rightarrow> if version m \<noteq> CACHE_VERSION then False
                  else now - fetchedAt m < CACHE_MAX_AGE_MS)"

definition isCacheUsable :: "storage \<Rightarrow> int \<Rightarrow> bool" where
  "isCacheUsable st now =
     (case getCacheMeta st of
        None \<Rightarrow> False
      | Some m \<Rightarrow> if version m \<noteq> CACHE_VERSION then False
                  else now - fetchedAt m < CACHE_STALE_AGE_MS)"


section \<open>Field mapping (nasa-data.js, lines 144 to 192)\<close>



text \<open>\<open>x || null\<close> on a string property: the empty string is falsy.\<close>

fun orNull :: "string nullable \<Rightarrow> string nullable" where
  "orNull (Val s) = (if s = [] then Null else Val s)"
| "orNull v = Null"

definition isWhitespace :: "char \<Rightarrow> bool" where
  "isWhitespace c = (c \<in> set [CHR '' '', CHR 0x09, CHR 0x0A, CHR 0x0B, CHR 0x0C, CHR 0x0D])"





section \<open>Validation summary (nasa-data.js, lines 284 to 311)\<close>

text \<open>
  \<open>Array.prototype.sort\<close> is a stable sort; an insertion sort from the right end is one.
  The comparator's result counts as positive, and the two elements are swapped, only when
  it is a number above 0 (\<open>NaN\<close> counts as 0).
\<close>

fun insertSorted :: "('a \<Rightarrow> 'a \<Rightarrow> jsnum) \<Rightarrow> 'a \<Rightarrow> 'a list \<Rightarrow> 'a list" where
  "insertSorted cmp x [] = [x]"
| "insertSorted cmp x (y # ys) =
     (if js_gt (cmp x y) (Fin 0) then y # insertSorted cmp x ys else x # y # ys)"

definition arraySort :: "('a \<Rightarrow> 'a \<Rightarrow> jsnum) \<Rightarrow> 'a list \<Rightarrow> 'a list" where
  "arraySort cmp xs = foldr (insertSorted cmp) xs []"







section \<open>The loading pipeline (nasa-data.js, lines 313 to 437)\<close>













definition exampleMeta :: cache_meta where
  "exampleMeta =
     \<lparr> version = 2, fetchedAt = 1000000000000, recordCount = 1, meta_report = None,
       truncated = False, cachedCount = 1 \<rparr>"

definition exampleStorage :: storage where
  "exampleStorage =
     \<lparr> metaItem = Stored exampleMeta, dataItem = Stored [examplePlanet], writable = True \<rparr>"



section \<open>Habitable zone (science.js, lines 13 to 99)\<close>

record hz_coefficients =
  coef_S0 :: real
  coef_a :: real
  coef_b :: real
  coef_c :: real
  coef_d :: real

definition recentVenus :: hz_coefficients where
  "recentVenus = \<lparr> coef_S0 = 17763 / 10 ^ 4, coef_a = 14335 / 10 ^ 8, coef_b = 33954 / 10 ^ 13,
                    coef_c = - (76364 / 10 ^ 16), coef_d = - (11950 / 10 ^ 19) \<rparr>"

definition runawayGH :: hz_coefficients where
  "runawayGH = \<lparr> coef_S0 = 10385 / 10 ^ 4, coef_a = 12456 / 10 ^ 8, coef_b = 14612 / 10 ^ 12,
                  coef_c = - (76345 / 10 ^ 16), coef_d = - (17511 / 10 ^ 19) \<rparr>"

definition maxGreenhouse :: hz_coefficients where
  "maxGreenhouse = \<lparr> coef_S0 = 3507 / 10 ^ 4, coef_a = 59578 / 10 ^ 9, coef_b = 16707 / 10 ^ 13,
                      coef_c = - (30058 / 10 ^ 16), coef_d = - (51925 / 10 ^ 20) \<rparr>"

definition earlyMars :: hz_coefficients where
  "earlyMars = \<lparr> coef_S0 = 3207 / 10 ^ 4, coef_a = 54471 / 10 ^ 9, coef_b = 15275 / 10 ^ 13,
                  coef_c = - (21709 / 10 ^ 16), coef_d = - (38282 / 10 ^ 20) \<rparr>"

text \<open>Truthiness of a numeric property: \<open>undefined\<close>, \<open>null\<close>, 0 and \<open>NaN\<close> are falsy.\<close>

definition truthy :: "jsnum nullable \<Rightarrow> bool" where
  "truthy v = (case v of Val x \<Rightarrow> x \<noteq> NaN \<and> x \<noteq> Fin 0 | _ \<Rightarrow> False)"

definition sEff :: "jsnum \<Rightarrow> hz_coefficients \<Rightarrow> jsnum" where
  "sEff tStar coeffs =
     js_add (js_add (js_add (js_add (Fin (coef_S0 coeffs)) (js_mul (Fin (coef_a coeffs)) tStar))
                            (js_mul (js_mul (Fin (coef_b coeffs)) tStar) tStar))
                    (js_mul (Fin (coef_c coeffs)) (js_pow tStar (Fin 3))))
            (js_mul (Fin (coef_d coeffs)) (js_pow tStar (Fin 4)))"

text \<open>The value of \<open>sEff\<close> at a finite \<open>tStar\<close>, as a real polynomial.\<close>

definition flux :: "hz_coefficients \<Rightarrow> real \<Rightarrow> real" where
  "flux co t = coef_S0 co + coef_a co * t + coef_b co * t * t + coef_c co * t ^ 3 + coef_d co * t ^ 4"

definition distAU :: "jsnum \<Rightarrow> jsnum \<Rightarrow> jsnum" where
  "distAU lum sEffVal = js_sqrt (js_div lum sEffVal)"

text \<open>
  \<open>modelNote\<close> is a sentence quoting the star temperature; the record keeps the quoted
  temperature (\<open>None\<close> for \<open>null\<close>).
\<close>

record boundaries =
  conservativeInner :: jsnum
  conservativeOuter :: jsnum
  optimisticInner :: jsnum
  optimisticOuter :: jsnum
  modelValid :: bool
  modelNote :: "jsnum option"
  hz_reference :: string

definition calculateHabitableZone :: "jsnum nullable \<Rightarrow> jsnum nullable \<Rightarrow> boundaries option" where
  "calculateHabitableZone starTeff starLuminosity =
     (if \<not> truthy starTeff \<or> \<not> truthy starLuminosity \<or> js_le (to_number starLuminosity) (Fin 0)
      then None
      else (let teff = to_number starTeff;
                lum = to_number starLuminosity;
                tClamped = js_max (Fin 2600) (js_min (Fin 7200) teff);
                tStar = js_sub tClamped (Fin 5780)
            in Some \<lparr> conservativeInner = distAU lum (sEff tStar runawayGH),
                      conservativeOuter = distAU lum (sEff tStar maxGreenhouse),
                      optimisticInner = distAU lum (sEff tStar recentVenus),
                      optimisticOuter = distAU lum (sEff tStar earlyMars),
                      modelValid = (js_ge teff (Fin 2600) \<and> js_le teff (Fin 7200)),
                      modelNote = (if js_lt teff (Fin 2600) \<or> js_gt teff (Fin 7200)
                                   then Some teff else None),
                      hz_reference = ''Kopparapu et al. (2013, 2014)'' \<rparr>))"

record hz_status =
  conservative :: bool
  optimistic :: bool
  label :: string
  hz :: "boundaries option"
  confidence :: string
  caveat :: "string option"

definition hzCaveat :: string where
  "hzCaveat = ''Being in the HZ does not guarantee habitability. Atmosphere, magnetic field, tidal locking, and many other factors affect surface conditions.''"

definition getHZStatus :: "'a planet_scheme \<Rightarrow> hz_status" where
  "getHZStatus planet =
     (case calculateHabitableZone (starTemp planet) (starLum planet) of
        None \<Rightarrow> \<lparr> conservative = False, optimistic = False, label = ''Unknown'', hz = None,
                   confidence = ''low'', caveat = None \<rparr>
      | Some z \<Rightarrow>
          if \<not> truthy (semiMajorAxis planet) \<or> js_le (to_number (semiMajorAxis planet)) (Fin 0)
          then \<lparr> conservative = False, optimistic = False, label = ''Unknown'', hz = None,
                 confidence = ''low'', caveat = None \<rparr>
          else (let a = to_number (semiMajorAxis planet);
                    inConservative = (js_ge a (conservativeInner z) \<and> js_le a (conservativeOuter z));
                    inOptimistic = (js_ge a (optimisticInner z) \<and> js_le a (optimisticOuter z))
                in \<lparr> conservative = inConservative, optimistic = inOptimistic,
                     label = (if inConservative then ''In Conservative HZ''
                              else if inOptimistic then ''In Optimistic HZ''
                              else if js_lt a (optimisticInner z) then ''Too Hot (inside HZ)''
                              else ''Too Cold (outside HZ)''),
                     hz = Some z,
                     confidence = (if modelValid z then ''high'' else ''moderate''),
                     caveat = Some hzCaveat \<rparr>))"

section \<open>Earth Similarity Index (science.js, lines 107 to 189)\<close>

definition EARTH_radius :: real where "EARTH_radius = 1"
definition EARTH_eqTemp :: real where "EARTH_eqTemp = 255"
definition EARTH_density :: real where "EARTH_density = 551 / 100"
definition EARTH_escapeVelocity :: real where "EARTH_escapeVelocity = 11186 / 1000"

definition WEIGHT_radius :: real where "WEIGHT_radius = 57 / 100"
definition WEIGHT_density :: real where "WEIGHT_density = 107 / 100"
definition WEIGHT_escapeVelocity :: real where "WEIGHT_escapeVelocity = 70 / 100"
definition WEIGHT_surfaceTemp :: real where "WEIGHT_surfaceTemp = 558 / 100"

definition esiComponent :: "jsnum nullable \<Rightarrow> real \<Rightarrow> real \<Rightarrow> jsnum option" where
  "esiComponent planetVal earthVal weight =
     (case planetVal of
        Val v \<Rightarrow>
          if js_le v (Fin 0) then None
          else Some (js_pow (js_sub (Fin 1)
                       (js_div (js_abs (js_sub v (Fin earthVal))) (js_add v (Fin earthVal))))
                     (Fin weight))
      | _ \<Rightarrow> None)"

record esi_components =
  comp_radius :: "jsnum option"
  comp_density :: "jsnum option"
  comp_escapeVelocity :: "jsnum option"
  comp_surfaceTemp :: "jsnum option"

record esi_result =
  esi_global :: jsnum
  interior :: "jsnum option"
  surface :: "jsnum option"
  components :: esi_components
  esi_confidence :: string
  esi_reference :: "string option"
  esi_note :: "string option"

definition round3 :: "jsnum \<Rightarrow> jsnum" where
  "round3 x = js_div (js_round (js_mul x (Fin 1000))) (Fin 1000)"

text \<open>\<open>Object.values(components).filter(v => v != null)\<close>, in the order of the keys.\<close>

definition validComponents :: "esi_components \<Rightarrow> jsnum list" where
  "validComponents cs =
     List.map_filter id [comp_radius cs, comp_density cs, comp_escapeVelocity cs, comp_surfaceTemp cs]"

definition calculateESI :: "'a planet_scheme \<Rightarrow> esi_result" where
  "calculateESI planet =
     (if \<not> truthy (radius planet) \<or> \<not> truthy (eqTemp planet)
      then \<lparr> esi_global = Fin 0, interior = None, surface = None,
             components = \<lparr> comp_radius = None, comp_density = None, comp_escapeVelocity = None,
                            comp_surfaceTemp = None \<rparr>,
             esi_confidence = ''low'', esi_reference = None,
             esi_note = Some ''Insufficient data to compute ESI.'' \<rparr>
      else (let r = to_number (radius planet);
                m = (if truthy (mass planet) then to_number (mass planet)
                     else js_pow r (Fin (5 / 2)));
                density = js_mul (js_div m (js_pow r (Fin 3))) (Fin EARTH_density);
                escapeVelocity = js_mul (js_sqrt (js_div m r)) (Fin EARTH_escapeVelocity);
                cs = \<lparr> comp_radius = esiComponent (radius planet) EARTH_radius WEIGHT_radius,
                       comp_density = esiComponent (Val density) EARTH_density WEIGHT_density,
                       comp_escapeVelocity =
                         esiComponent (Val escapeVelocity) EARTH_escapeVelocity WEIGHT_escapeVelocity,
                       comp_surfaceTemp = esiComponent (eqTemp planet) EARTH_eqTemp WEIGHT_surfaceTemp \<rparr>;
                inter = (case (comp_radius cs, comp_density cs) of
                           (Some a, Some b) \<Rightarrow> Some (js_pow (js_mul a b) (Fin (1 / 2)))
                         | _ \<Rightarrow> None);
                surf = (case (comp_escapeVelocity cs, comp_surfaceTemp cs) of
                          (Some a, Some b) \<Rightarrow> Some (js_pow (js_mul a b) (Fin (1 / 2)))
                        | _ \<Rightarrow> None);
                valid = validComponents cs;
                glob = (if 0 < length valid
                        then js_pow (foldl js_mul (Fin 1) valid)
                               (js_div (Fin 1) (Fin (real (length valid))))
                        else Fin 0)
            in \<lparr> esi_global = round3 glob,
                 interior = map_option round3 inter,
                 surface = map_option round3 surf,
                 components = cs,
                 esi_confidence = (if \<not> nullish (mass planet) \<and> \<not> nullish (eqTemp planet)
                                      \<and> \<not> eqTempEstimated planet then ''high'' else ''moderate''),
                 esi_reference = Some ''Schulze-Makuch et al. (2011)'',
                 esi_note = (if nullish (mass planet)
                             then Some ''Mass estimated from radius using M-R relation.''
                             else None) \<rparr>))"



section \<open>Observer utilities (science.js, lines 196 to 407)\<close>

text \<open>
  \<open>String(x)\<close> and \<open>toFixed\<close>. Both print an integer below \<open>10^21\<close> in plain decimal
  digits. Beyond that, and for a number that is not an integer, JavaScript prints the
  shortest digits that identify the binary64 value; that rendering is the parameter
  \<open>numberToString\<close>.
\<close>

definition jsString :: "(real \<Rightarrow> string) \<Rightarrow> jsnum \<Rightarrow> string" where
  "jsString numberToString x =
     (case x of
        NaN \<Rightarrow> ''NaN''
      | PosInf \<Rightarrow> ''Infinity''
      | NegInf \<Rightarrow> ''-Infinity''
      | Fin v \<Rightarrow> if is_int v \<and> \<bar>v\<bar> < 10 ^ 21 then string_of_int \<lfloor>v\<rfloor> else numberToString v)"

definition padStart :: "string \<Rightarrow> nat \<Rightarrow> string" where
  "padStart s n = replicate (n - length s) (CHR ''0'') @ s"

definition fixedDigits :: "nat \<Rightarrow> real \<Rightarrow> string" where
  "fixedDigits f x =
     (let m = string_of_nat (nat \<lfloor>x * 10 ^ f + 1 / 2\<rfloor>)
      in if f = 0 then m
         else (let m' = padStart m (f + 1)
               in take (length m' - f) m' @ ''.'' @ drop (length m' - f) m'))"

definition toFixed :: "(real \<Rightarrow> string) \<Rightarrow> nat \<Rightarrow> jsnum \<Rightarrow> string" where
  "toFixed numberToString f x =
     (case x of
        Fin v \<Rightarrow> if 10 ^ 21 \<le> \<bar>v\<bar> then numberToString v
                 else if v < 0 then CHR ''-'' # fixedDigits f (- v)
                 else fixedDigits f v
      | _ \<Rightarrow> jsString numberToString x)"

record coords =
  coord_ra :: string
  coord_dec :: string
  raHours :: jsnum
  decDeg :: jsnum

definition degreeSign :: string where "degreeSign = [CHR 0xC2, CHR 0xB0]"
definition primeSign :: string where "primeSign = [CHR 0xE2, CHR 0x80, CHR 0xB2]"
definition doublePrimeSign :: string where "doublePrimeSign = [CHR 0xE2, CHR 0x80, CHR 0xB3]"
definition enDash :: string where "enDash = [CHR 0xE2, CHR 0x80, CHR 0x93]"

text \<open>\<open>formatRADec\<close> for arguments that are not \<open>null\<close> (the only use in \<open>enrichPlanet\<close>).\<close>

definition formatRADec :: "(real \<Rightarrow> string) \<Rightarrow> jsnum \<Rightarrow> jsnum \<Rightarrow> coords" where
  "formatRADec numberToString raDeg decDegrees =
     (let raH = js_div raDeg (Fin 15);
          raHrs = js_floor raH;
          raMinRem = js_mul (js_sub raH raHrs) (Fin 60);
          raMin = js_floor raMinRem;
          raSec = toFixed numberToString 1 (js_mul (js_sub raMinRem raMin) (Fin 60));
          decSign = (if js_ge decDegrees (Fin 0) then ''+'' else ''-'');
          decAbs = js_abs decDegrees;
          decD = js_floor decAbs;
          decMinRem = js_mul (js_sub decAbs decD) (Fin 60);
          decMin = js_floor decMinRem;
          decSec = toFixed numberToString 0 (js_mul (js_sub decMinRem decMin) (Fin 60))
      in \<lparr> coord_ra = padStart (jsString numberToString raHrs) 2 @ ''h ''
                       @ padStart (jsString numberToString raMin) 2 @ ''m ''
                       @ padStart raSec 4 @ ''s'',
           coord_dec = decSign @ padStart (jsString numberToString decD) 2 @ degreeSign @ '' ''
                       @ padStart (jsString numberToString decMin) 2 @ primeSign @ '' ''
                       @ padStart decSec 2 @ doublePrimeSign,
           raHours = raH,
           decDeg = decDegrees \<rparr>)"

text \<open>The table \<open>CONSTELLATIONS\<close>: name, const_abbreviation, raMin, raMax, decMin, decMax.\<close>

definition CONSTELLATIONS :: "(string \<times> string \<times> real \<times> real \<times> real \<times> real) list" where
  "CONSTELLATIONS =
     [
      (''Andromeda'', ''And'', 114 / 5, 12 / 5, 21, 53),
      (''Aquarius'', ''Aqr'', 103 / 5, 119 / 5, - 25, 3),
      (''Aquila'', ''Aql'', 94 / 5, 103 / 5, - 12, 18),
      (''Aries'', ''Ari'', 3 / 2, 7 / 2, 10, 31),
      ((''Bo'' @ [CHR 0xC3, CHR 0xB6] @ ''tes''), ''Boo'', 27 / 2, 79 / 5, 7, 55),
      (''Cancer'', ''Cnc'', 79 / 10, 93 / 10, 7, 33),
      (''Canis Major'', ''CMa'', 6, 15 / 2, - 33, - 11),
      (''Capricornus'', ''Cap'', 20, 109 / 5, - 28, - 8),
      (''Cassiopeia'', ''Cas'', 45 / 2, 7 / 2, 46, 77),
      (''Centaurus'', ''Cen'', 11, 15, - 64, - 30),
      (''Cetus'', ''Cet'', 47 / 2, 33 / 10, - 25, 10),
      (''Cygnus'', ''Cyg'', 191 / 10, 109 / 5, 28, 61),
      (''Draco'', ''Dra'', 47 / 5, 41 / 2, 48, 86),
      (''Eridanus'', ''Eri'', 7 / 5, 51 / 10, - 58, 0),
      (''Gemini'', ''Gem'', 59 / 10, 81 / 10, 10, 35),
      (''Hercules'', ''Her'', 16, 94 / 5, 14, 51),
      (''Hydra'', ''Hya'', 81 / 10, 15, - 35, 7),
      (''Leo'', ''Leo'', 93 / 10, 12, - 6, 33),
      (''Libra'', ''Lib'', 71 / 5, 16, - 30, 0),
      (''Lyra'', ''Lyr'', 181 / 10, 97 / 5, 25, 48),
      (''Ophiuchus'', ''Oph'', 16, 18, - 30, 14),
      (''Orion'', ''Ori'', 9 / 2, 32 / 5, - 11, 23),
      (''Pegasus'', ''Peg'', 211 / 10, 1 / 5, 2, 36),
      (''Perseus'', ''Per'', 7 / 5, 9 / 2, 31, 59),
      (''Pisces'', ''Psc'', 45 / 2, 2, - 6, 34),
      (''Sagittarius'', ''Sgr'', 177 / 10, 102 / 5, - 45, - 12),
      (''Scorpius'', ''Sco'', 79 / 5, 89 / 5, - 45, - 8),
      (''Taurus'', ''Tau'', 33 / 10, 6, 0, 31),
      (''Ursa Major'', ''UMa'', 8, 29 / 2, 29, 73),
      (''Ursa Minor'', ''UMi'', 0, 24, 66, 90),
      (''Virgo'', ''Vir'', 58 / 5, 15, - 22, 14),
      (''Vela'', ''Vel'', 8, 11, - 56, - 37),
      (''Puppis'', ''Pup'', 6, 17 / 2, - 50, - 11),
      (''Carina'', ''Car'', 6, 113 / 10, - 75, - 51),
      (''Crux'', ''Cru'', 119 / 10, 63 / 5, - 64, - 56)
     ]"

record constellation =
  const_name :: string
  const_abbreviation :: string

fun findConstellation :: "jsnum \<Rightarrow> jsnum \<Rightarrow> (string \<times> string \<times> real \<times> real \<times> real \<times> real) list \<Rightarrow> constellation" where
  "findConstellation raH decDegrees [] = \<lparr> const_name = ''Unknown'', const_abbreviation = ''---'' \<rparr>"
| "findConstellation raH decDegrees ((n, ab, rMin, rMax, dMin, dMax) # cs) =
     (let raMatch = (if rMax < rMin then js_ge raH (Fin rMin) \<or> js_le raH (Fin rMax)
                     else js_ge raH (Fin rMin) \<and> js_le raH (Fin rMax))
      in if raMatch \<and> js_ge decDegrees (Fin dMin) \<and> js_le decDegrees (Fin dMax)
         then \<lparr> const_name = n, const_abbreviation = ab \<rparr>
         else findConstellation raH decDegrees cs)"

definition getConstellation :: "jsnum \<Rightarrow> jsnum \<Rightarrow> constellation" where
  "getConstellation raDeg decDegrees = findConstellation (js_div raDeg (Fin 15)) decDegrees CONSTELLATIONS"

definition sunRA :: "real list" where
  "sunRA = [39 / 2, 43 / 2, 47 / 2, 3 / 2, 7 / 2, 11 / 2, 15 / 2, 19 / 2, 23 / 2, 27 / 2, 31 / 2, 35 / 2]"

definition monthNames :: "string list" where
  "monthNames = [''January'', ''February'', ''March'', ''April'', ''May'', ''June'',
                 ''July'', ''August'', ''September'', ''October'', ''November'', ''December'']"

definition monthAbbr :: "string list" where
  "monthAbbr = [''Jan'', ''Feb'', ''Mar'', ''Apr'', ''May'', ''Jun'',
                ''Jul'', ''Aug'', ''Sep'', ''Oct'', ''Nov'', ''Dec'']"

text \<open>One round of the loop over the months: the state is \<open>(bestMonth, bestDiff)\<close>.\<close>

definition monthStep :: "jsnum \<Rightarrow> nat \<times> jsnum \<Rightarrow> nat \<Rightarrow> nat \<times> jsnum" where
  "monthStep raH best m =
     (let d1 = js_abs (js_add (js_sub raH (Fin (sunRA ! m))) (Fin 12));
          diff = (if js_gt d1 (Fin 12) then js_sub (Fin 24) d1 else d1);
          d2 = js_abs (js_sub (js_add raH (Fin 24)) (Fin (sunRA ! m + 12)));
          diff2 = (if js_gt d2 (Fin 12) then js_sub (Fin 24) d2 else d2);
          minDiff = js_min diff diff2
      in if js_lt minDiff (snd best) then (m, minDiff) else best)"

record observability =
  bestMonth :: string
  bestMonthAbbr :: string
  bestMonthIndex :: nat
  seasonStart :: string
  seasonEnd :: string
  seasonLabel :: string
  hemisphere :: string
  circumpolarNorth :: bool
  circumpolarSouth :: bool
  obs_note :: "string option"

text \<open>\<open>getObservability\<close> for a right ascension that is not \<open>null\<close>.\<close>

definition getObservability :: "jsnum \<Rightarrow> jsnum nullable \<Rightarrow> observability" where
  "getObservability raDeg decDegrees =
     (let raH = js_div raDeg (Fin 15);
          best = fst (foldl (monthStep raH) (0, Fin 24) [0 ..< 12]);
          sStart = (best + 10) mod 12;
          sEnd = (best + 2) mod 12;
          circumpolarN = (\<not> nullish decDegrees \<and> js_gt (to_number decDegrees) (Fin 50));
          circumpolarS = (\<not> nullish decDegrees \<and> js_lt (to_number decDegrees) (Fin (- 50)))
      in \<lparr> bestMonth = monthNames ! best,
           bestMonthAbbr = monthAbbr ! best,
           bestMonthIndex = best,
           seasonStart = monthAbbr ! sStart,
           seasonEnd = monthAbbr ! sEnd,
           seasonLabel = monthAbbr ! sStart @ enDash @ monthAbbr ! sEnd,
           hemisphere =
             (case decDegrees of
                Val dd \<Rightarrow>
                  if js_gt dd (Fin 60) then ''Northern hemisphere only''
                  else if js_gt dd (Fin 20) then ''Best from Northern hemisphere''
                  else if js_gt dd (Fin (- 20)) then ''Visible from both hemispheres''
                  else if js_gt dd (Fin (- 60)) then ''Best from Southern hemisphere''
                  else ''Southern hemisphere only''
              | _ \<Rightarrow> ''Unknown''),
           circumpolarNorth = circumpolarN,
           circumpolarSouth = circumpolarS,
           obs_note =
             (if circumpolarN then Some ''Circumpolar from far-northern latitudes (always visible).''
              else if circumpolarS then Some ''Circumpolar from far-southern latitudes (always visible).''
              else None) \<rparr>)"

record magnitude_guidance =
  mag_label :: string
  guidance :: string
  magnitude :: "jsnum option"
  mag_confidence :: string
  mag_note :: "string option"

definition magnitudeNote :: string where
  "magnitudeNote = ''Magnitude refers to the host star system brightness, not the planet itself. Exoplanets are not directly visible in amateur telescopes.''"

definition magnitudeBands :: "(real \<times> string \<times> string) list" where
  "magnitudeBands =
     [(0, ''Very Bright'', ''Easily visible to the naked eye, among the brightest stars in the sky.''),
      (2, ''Bright'', ''Visible to the naked eye from most locations, even with some light pollution.''),
      (4, ''Moderate'', ''Naked-eye visible from suburban skies. Easy target for any binoculars.''),
      (6, ''Dim'', ''Near the naked-eye limit. Requires dark skies or binoculars (7'' @ [CHR 0xC3, CHR 0x97] @ ''50 or larger).''),
      (8, ''Binocular'', ''Not naked-eye visible. Requires binoculars or a small telescope (60mm+).''),
      (10, ''Small Telescope'', ''Requires a small telescope (80-150mm aperture) under good conditions.''),
      (13, ''Medium Telescope'', ''Requires a medium telescope (150-250mm) and steady skies.''),
      (16, ''Large Telescope'', ''Requires a large amateur telescope (300mm+) or astrophotography.'')]"

fun magnitudeBand :: "jsnum \<Rightarrow> (real \<times> string \<times> string) list \<Rightarrow> string \<times> string" where
  "magnitudeBand v [] =
     (''Professional Only'',
      ''Too faint for most amateur equipment. Requires observatory-class instruments.'')"
| "magnitudeBand v ((limit, l, g) # bands) =
     (if js_lt v (Fin limit) then (l, g) else magnitudeBand v bands)"

definition getMagnitudeGuidance :: "jsnum nullable \<Rightarrow> magnitude_guidance" where
  "getMagnitudeGuidance vm =
     (case vm of
        Val v \<Rightarrow> \<lparr> mag_label = fst (magnitudeBand v magnitudeBands),
                    guidance = snd (magnitudeBand v magnitudeBands),
                    magnitude = Some v, mag_confidence = ''high'', mag_note = Some magnitudeNote \<rparr>
      | _ \<Rightarrow> \<lparr> mag_label = ''Unknown'', guidance = ''No magnitude data available.'',
                 magnitude = None, mag_confidence = ''low'', mag_note = None \<rparr>)"

section \<open>Discovery method metadata (science.js, lines 414 to 569)\<close>

text \<open>
  Of each entry of \<open>DISCOVERY_METHODS\<close> the record keeps \<open>id\<close>, \<open>name\<close> and
  \<open>animationType\<close>; the descriptive texts and lists are constant data of the same entry.
\<close>

record method_info =
  method_id :: string
  method_name :: string
  animationType :: string

definition DISCOVERY_METHODS :: "(string \<times> method_info) list" where
  "DISCOVERY_METHODS =
     [(''Transit'', \<lparr> method_id = ''transit'', method_name = ''Transit'', animationType = ''transit'' \<rparr>),
      (''Radial Velocity'', \<lparr> method_id = ''radialVelocity'', method_name = ''Radial Velocity'', animationType = ''radialVelocity'' \<rparr>),
      (''Direct Imaging'', \<lparr> method_id = ''directImaging'', method_name = ''Direct Imaging'', animationType = ''directImaging'' \<rparr>),
      (''Microlensing'', \<lparr> method_id = ''microlensing'', method_name = ''Gravitational Microlensing'', animationType = ''microlensing'' \<rparr>),
      (''Timing'', \<lparr> method_id = ''timing'', method_name = ''Timing Variations'', animationType = ''timing'' \<rparr>),
      (''Astrometry'', \<lparr> method_id = ''astrometry'', method_name = ''Astrometry'', animationType = ''astrometry'' \<rparr>),
      (''Transit Timing Variations'', \<lparr> method_id = ''ttv'', method_name = ''Transit Timing Variations'', animationType = ''timing'' \<rparr>),
      (''Imaging'', \<lparr> method_id = ''imaging'', method_name = ''Direct Imaging'', animationType = ''directImaging'' \<rparr>),
      (''Eclipse Timing Variations'', \<lparr> method_id = ''etv'', method_name = ''Eclipse Timing Variations'', animationType = ''timing'' \<rparr>),
      (''Pulsar Timing'', \<lparr> method_id = ''pulsarTiming'', method_name = ''Pulsar Timing'', animationType = ''timing'' \<rparr>),
      (''Orbital Brightness Modulation'', \<lparr> method_id = ''obm'', method_name = ''Orbital Brightness Modulation'', animationType = ''transit'' \<rparr>),
      (''Disk Kinematics'', \<lparr> method_id = ''diskKinematics'', method_name = ''Disk Kinematics'', animationType = ''directImaging'' \<rparr>)]"

definition METHOD_ALIASES :: "(string \<times> string) list" where
  "METHOD_ALIASES =
     [(''Transit'', ''Transit''),
      (''Radial Velocity'', ''Radial Velocity''),
      (''Direct Imaging'', ''Direct Imaging''),
      (''Microlensing'', ''Microlensing''),
      (''Imaging'', ''Direct Imaging''),
      (''Astrometry'', ''Astrometry''),
      (''Transit Timing Variations'', ''Transit Timing Variations''),
      (''Eclipse Timing Variations'', ''Eclipse Timing Variations''),
      (''Pulsar Timing'', ''Pulsar Timing''),
      (''Pulsation Timing Variations'', ''Timing''),
      (''Orbital Brightness Modulation'', ''Orbital Brightness Modulation''),
      (''Disk Kinematics'', ''Disk Kinematics'')]"

text \<open>
  A property read on an object literal: an own property, else a member inherited from
  \<open>Object.prototype\<close> (always truthy), else \<open>undefined\<close>.
\<close>

datatype 'a property = Own 'a | Inherited | NoProperty

definition getProperty :: "(string \<times> 'a) list \<Rightarrow> string \<Rightarrow> 'a property" where
  "getProperty obj key =
     (case map_of obj key of
        Some v \<Rightarrow> Own v
      | None \<Rightarrow> if key = ''__proto__'' \<or> key \<in> set object_prototype_methods then Inherited
                else NoProperty)"

text \<open>
  The result is an entry of the table or, when the method name is the name of a member of
  \<open>Object.prototype\<close>, that member.
\<close>

datatype method_result = Info method_info | InheritedMember string

definition lookupMethod :: "string \<Rightarrow> method_result option" where
  "lookupMethod key =
     (case getProperty DISCOVERY_METHODS key of
        Own info \<Rightarrow> Some (Info info)
      | Inherited \<Rightarrow> Some (InheritedMember key)
      | NoProperty \<Rightarrow> None)"

definition getDiscoveryMethodInfo :: "string nullable \<Rightarrow> method_result nullable" where
  "getDiscoveryMethodInfo methodName =
     (case orNull methodName of
        Val n \<Rightarrow>
          (case (case getProperty METHOD_ALIASES n of
                   Own normalized \<Rightarrow> lookupMethod normalized
                 | Inherited \<Rightarrow> None
                 | NoProperty \<Rightarrow> lookupMethod n) of
             Some r \<Rightarrow> Val r
           | None \<Rightarrow> (case lookupMethod n of Some r \<Rightarrow> Val r | None \<Rightarrow> Null))
      | _ \<Rightarrow> Null)"

section \<open>Catalog records and enrichPlanet (science.js, lines 576 to 601)\<close>

text \<open>
  A catalog entry is a pipeline record with the fields database.js adds (\<open>id\<close>, \<open>type\<close>,
  \<open>atmosphere\<close>, \<open>curated\<close>, \<open>habitability\<close>) and the fields \<open>enrichPlanet\<close> attaches.
  A field that was never assigned is \<open>None\<close>.
\<close>

record catalog_planet = planet +
  planet_id :: nat
  planetType :: string
  atmosphere :: "(string \<times> jsnum) list"
  curated :: bool
  habitability :: "jsnum nullable"
  hzStatus :: "hz_status option"
  esi :: "esi_result option"
  coordinates :: "coords option"
  constellationOf :: "constellation option"
  observabilityOf :: "observability option"
  magnitudeGuidance :: "magnitude_guidance option"
  discoveryMethodInfo :: "method_result nullable"

definition attachHZStatus :: "catalog_planet \<Rightarrow> catalog_planet" where
  "attachHZStatus p = p\<lparr> hzStatus := Some (getHZStatus p) \<rparr>"

definition attachESI :: "catalog_planet \<Rightarrow> catalog_planet" where
  "attachESI p = p\<lparr> esi := Some (calculateESI p) \<rparr>"

definition attachObserver :: "(real \<Rightarrow> string) \<Rightarrow> catalog_planet \<Rightarrow> catalog_planet" where
  "attachObserver numberToString p =
     (case (ra p, dec p) of
        (Val r, Val d) \<Rightarrow>
          p\<lparr> coordinates := Some (formatRADec numberToString r d),
             constellationOf := Some (getConstellation r d),
             observabilityOf := Some (getObservability r (dec p)) \<rparr>
      | _ \<Rightarrow> p)"

definition attachMagnitude :: "catalog_planet \<Rightarrow> catalog_planet" where
  "attachMagnitude p =
     (if \<not> nullish (vMag p) then p\<lparr> magnitudeGuidance := Some (getMagnitudeGuidance (vMag p)) \<rparr>
      else p)"

definition attachMethodInfo :: "catalog_planet \<Rightarrow> catalog_planet" where
  "attachMethodInfo p =
     (case orNull (discoveryMethod p) of
        Val n \<Rightarrow> p\<lparr> discoveryMethodInfo := getDiscoveryMethodInfo (discoveryMethod p) \<rparr>
      | _ \<Rightarrow> p)"

definition enrichPlanet :: "(real \<Rightarrow> string) \<Rightarrow> catalog_planet \<Rightarrow> catalog_planet" where
  "enrichPlanet numberToString planet =
     attachMethodInfo (attachMagnitude (attachObserver numberToString (attachESI (attachHZStatus planet))))"

definition catalogEntry :: "nat \<Rightarrow> string \<Rightarrow> planet \<Rightarrow> catalog_planet" where
  "catalogEntry i ty p =
     planet.extend p (catalog_planet.fields i ty [] False (Val (Fin (1 / 2)))
       None None None None None None Undefined)"

section \<open>Dynamically typed values: property reads and the relational operators\<close>

text \<open>
  \<open>a[sortBy]\<close> reads a property whose type depends on the name. \<open>JObj s\<close> is an object
  (or array, or function) whose conversion to a primitive is the string \<open>s\<close>.
\<close>

datatype jsval = JUndefined | JNull | JBool bool | JNum jsnum | JStr string | JObj string

definition lowerChar :: "char \<Rightarrow> char" where
  "lowerChar c =
     (case map_of (zip ''ABCDEFGHIJKLMNOPQRSTUVWXYZ'' ''abcdefghijklmnopqrstuvwxyz'') c of
        Some l \<Rightarrow> l
      | None \<Rightarrow> c)"

text \<open>\<open>toLowerCase\<close> on the ASCII letters; other bytes are left as they are.\<close>

definition toLowerCase :: "string \<Rightarrow> string" where
  "toLowerCase s = map lowerChar s"

definition trim :: "string \<Rightarrow> string" where
  "trim s = rev (dropWhile isWhitespace (rev (dropWhile isWhitespace s)))"

text \<open>Strings compare by code units, lexicographically.\<close>

fun strLess :: "string \<Rightarrow> string \<Rightarrow> bool" where
  "strLess [] [] = False"
| "strLess [] (y # ys) = True"
| "strLess (x # xs) [] = False"
| "strLess (x # xs) (y # ys) =
     ((of_char x :: nat) < of_char y \<or> (x = y \<and> strLess xs ys))"

text \<open>
  StringToNumber: surrounding whitespace is dropped; the empty string is 0; a literal is
  \<open>Infinity\<close> with an optional sign, a hexadecimal, octal or binary integer, or a decimal
  literal with an optional sign, fraction and exponent; anything else is \<open>NaN\<close>.
\<close>

definition isDigit :: "char \<Rightarrow> bool" where
  "isDigit c = (c \<in> set digit_chars)"

definition digitValue :: "char \<Rightarrow> nat option" where
  "digitValue c =
     map_of (zip ''0123456789abcdefABCDEF''
               [0, 1, 2, 3, 4, 5, 6, 7, 8, 9, 10, 11, 12, 13, 14, 15, 10, 11, 12, 13, 14, 15]) c"

fun radixValue :: "nat \<Rightarrow> nat \<Rightarrow> string \<Rightarrow> nat option" where
  "radixValue base acc [] = Some acc"
| "radixValue base acc (c # cs) =
     (case digitValue c of
        Some d \<Rightarrow> if d < base then radixValue base (base * acc + d) cs else None
      | None \<Rightarrow> None)"

definition parseRadix :: "string \<Rightarrow> jsnum option" where
  "parseRadix s =
     (if 2 < length s \<and> hd s = CHR ''0''
      then (case (if s ! 1 \<in> set ''xX'' then Some 16
                  else if s ! 1 \<in> set ''oO'' then Some 8
                  else if s ! 1 \<in> set ''bB'' then Some 2 else None) of
              Some base \<Rightarrow> (case radixValue base 0 (drop 2 s) of
                               Some v \<Rightarrow> Some (Fin (real v))
                             | None \<Rightarrow> Some NaN)
            | None \<Rightarrow> None)
      else None)"

definition splitSign :: "string \<Rightarrow> int \<times> string" where
  "splitSign s =
     (case s of
        c # cs \<Rightarrow> if c = CHR ''+'' then (1, cs) else if c = CHR ''-'' then (- 1, cs) else (1, s)
      | [] \<Rightarrow> (1, s))"

definition parseExponent :: "string \<Rightarrow> int option" where
  "parseExponent s =
     (case s of
        [] \<Rightarrow> Some 0
      | c # cs \<Rightarrow>
          if c \<in> set ''eE''
          then (case splitSign cs of
                  (sg, ds) \<Rightarrow> if ds \<noteq> [] \<and> list_all isDigit ds
                               then Some (sg * int (decimal_value 0 ds)) else None)
          else None)"

definition parseDecimalLiteral :: "string \<Rightarrow> real option" where
  "parseDecimalLiteral s =
     (let ip = takeWhile isDigit s;
          r1 = dropWhile isDigit s;
          fp = (case r1 of c # cs \<Rightarrow> if c = CHR ''.'' then takeWhile isDigit cs else [] | [] \<Rightarrow> []);
          r2 = (case r1 of c # cs \<Rightarrow> if c = CHR ''.'' then dropWhile isDigit cs else r1 | [] \<Rightarrow> [])
      in if ip = [] \<and> fp = [] then None
         else (case parseExponent r2 of
                 Some e \<Rightarrow> Some ((real (decimal_value 0 ip)
                                   + real (decimal_value 0 fp) / 10 ^ length fp) * 10 powi e)
               | None \<Rightarrow> None))"

definition stringToNumber :: "string \<Rightarrow> jsnum" where
  "stringToNumber s =
     (let t = trim s
      in if t = [] then Fin 0
         else (case parseRadix t of
                 Some v \<Rightarrow> v
               | None \<Rightarrow>
                   (case splitSign t of
                      (sg, r) \<Rightarrow>
                        if r = ''Infinity'' then (if sg < 0 then NegInf else PosInf)
                        else (case parseDecimalLiteral r of
                                Some v \<Rightarrow> Fin (real_of_int sg * v)
                              | None \<Rightarrow> NaN))))"

fun toPrimitive :: "jsval \<Rightarrow> jsval" where
  "toPrimitive (JObj s) = JStr s"
| "toPrimitive v = v"

fun toNumber :: "jsval \<Rightarrow> jsnum" where
  "toNumber JUndefined = NaN"
| "toNumber JNull = Fin 0"
| "toNumber (JBool b) = (if b then Fin 1 else Fin 0)"
| "toNumber (JNum x) = x"
| "toNumber (JStr s) = stringToNumber s"
| "toNumber (JObj s) = stringToNumber s"

text \<open>The operator \<open><\<close>: two strings compare as strings, anything else as numbers.\<close>

definition jsLess :: "jsval \<Rightarrow> jsval \<Rightarrow> bool" where
  "jsLess a b =
     (case (toPrimitive a, toPrimitive b) of
        (JStr x, JStr y) \<Rightarrow> strLess x y
      | (x, y) \<Rightarrow> js_lt (toNumber x) (toNumber y))"

fun ofNumber :: "jsnum nullable \<Rightarrow> jsval" where
  "ofNumber Undefined = JUndefined"
| "ofNumber Null = JNull"
| "ofNumber (Val x) = JNum x"

fun ofString :: "string nullable \<Rightarrow> jsval" where
  "ofString Undefined = JUndefined"
| "ofString Null = JNull"
| "ofString (Val s) = JStr s"

text \<open>A flag that is only ever set to \<open>true\<close> is absent when it is false.\<close>

definition ofFlag :: "bool \<Rightarrow> jsval" where
  "ofFlag b = (if b then JBool True else JUndefined)"

definition ofObject :: "'a option \<Rightarrow> jsval" where
  "ofObject v = (case v of Some x \<Rightarrow> JObj ''[object Object]'' | None \<Rightarrow> JUndefined)"

fun joinComma :: "string list \<Rightarrow> string" where
  "joinComma [] = []"
| "joinComma [s] = s"
| "joinComma (s # t # ss) = s @ '','' @ joinComma (t # ss)"

definition ownProperties :: "catalog_planet \<Rightarrow> (string \<times> jsval) list" where
  "ownProperties p =
     [(''name'', JStr (name p)), (''system'', JStr (system p)),
      (''distance'', ofNumber (distance p)), (''radius'', ofNumber (radius p)),
      (''mass'', ofNumber (mass p)), (''period'', ofNumber (period p)),
      (''semiMajorAxis'', ofNumber (semiMajorAxis p)), (''eqTemp'', ofNumber (eqTemp p)),
      (''eccentricity'', ofNumber (eccentricity p)), (''inclination'', ofNumber (inclination p)),
      (''starType'', ofString (starType p)), (''starTemp'', ofNumber (starTemp p)),
      (''starMass'', ofNumber (starMass p)), (''starLum'', ofNumber (starLum p)),
      (''starLumLog'', ofNumber (starLumLog p)), (''discovered'', ofNumber (discovered p)),
      (''discoveryMethod'', ofString (discoveryMethod p)),
      (''discoveryFacility'', ofString (discoveryFacility p)),
      (''discoveryRef'', ofString (discoveryRef p)),
      (''ra'', ofNumber (ra p)), (''dec'', ofNumber (dec p)),
      (''vMag'', ofNumber (vMag p)), (''kMag'', ofNumber (kMag p)),
      (''controversial'', JBool (controversial p)), (''source'', JStr (source p)),
      (''nasaRaw'', ofFlag (nasaRaw p)), (''eqTempEstimated'', ofFlag (eqTempEstimated p)),
      (''id'', JNum (Fin (real (planet_id p)))), (''type'', JStr (planetType p)),
      (''atmosphere'', JObj (joinComma (map (\<lambda>g. ''[object Object]'') (atmosphere p)))),
      (''curated'', ofFlag (curated p)), (''habitability'', ofNumber (habitability p)),
      (''hzStatus'', ofObject (hzStatus p)), (''esi'', ofObject (esi p)),
      (''coords'', ofObject (coordinates p)), (''constellation'', ofObject (constellationOf p)),
      (''observability'', ofObject (observabilityOf p)),
      (''magnitudeGuidance'', ofObject (magnitudeGuidance p)),
      (''discoveryMethodInfo'',
         (case discoveryMethodInfo p of
            Undefined \<Rightarrow> JUndefined | Null \<Rightarrow> JNull | Val r \<Rightarrow> JObj ''[object Object]''))]"

text \<open>
  \<open>a[key]\<close>: an own property, else a member of \<open>Object.prototype\<close> (the prototype itself
  for \<open>__proto__\<close>, a native function otherwise), else \<open>undefined\<close>.
\<close>

definition propertyValue :: "string \<Rightarrow> catalog_planet \<Rightarrow> jsval" where
  "propertyValue key p =
     (case getProperty (ownProperties p) key of
        Own v \<Rightarrow> v
      | Inherited \<Rightarrow>
          if key = ''__proto__'' then JObj ''[object Object]''
          else JObj (''function '' @ (if key = ''constructor'' then ''Object'' else key)
                     @ ''() { [native code] }'')
      | NoProperty \<Rightarrow> JUndefined)"

section \<open>searchPlanets (database.js, lines 795 to 893)\<close>

record filters =
  filterType :: "string nullable"
  minHabitability :: "jsnum nullable"
  maxDistance :: "jsnum nullable"
  minDistance :: "jsnum nullable"
  minTemp :: "jsnum nullable"
  maxTemp :: "jsnum nullable"
  minRadius :: "jsnum nullable"
  maxRadius :: "jsnum nullable"
  filterStarType :: "string nullable"
  discoveredAfter :: "jsnum nullable"
  filterDiscoveryMethod :: "string nullable"
  inHZ :: "string nullable"
  minESI :: "jsnum nullable"
  sortBy :: "string nullable"
  sortDir :: "string nullable"

text \<open>
  The arrays live in a store: an address is an index into it, an allocation appends, and
  \<open>sort\<close> overwrites the array at its address. \<open>PLANET_CATALOG\<close> holds an address.
\<close>

type_synonym heap = "catalog_planet list list"

definition alloc :: "heap \<Rightarrow> catalog_planet list \<Rightarrow> nat \<times> heap" where
  "alloc h xs = (length h, h @ [xs])"

definition sortInPlace :: "(catalog_planet \<Rightarrow> catalog_planet \<Rightarrow> jsnum) \<Rightarrow> nat \<Rightarrow> heap \<Rightarrow> heap" where
  "sortInPlace cmp a h = h[a := arraySort cmp (h ! a)]"

text \<open>\<open>results = results.filter(pred)\<close>, run only when its guard holds.\<close>

fun filterStep :: "nat \<times> heap \<Rightarrow> (catalog_planet \<Rightarrow> bool) option \<Rightarrow> nat \<times> heap" where
  "filterStep (results, h) None = (results, h)"
| "filterStep (results, h) (Some pred) = alloc h (filter pred (h ! results))"

definition guard :: "bool \<Rightarrow> (catalog_planet \<Rightarrow> bool) \<Rightarrow> (catalog_planet \<Rightarrow> bool) option" where
  "guard b pred = (if b then Some pred else None)"

definition truthyString :: "string nullable \<Rightarrow> bool" where
  "truthyString v = (case v of Val s \<Rightarrow> s \<noteq> [] | _ \<Rightarrow> False)"

definition stringOf :: "string nullable \<Rightarrow> string" where
  "stringOf v = (case v of Val s \<Rightarrow> s | _ \<Rightarrow> [])"

definition matchesQuery :: "string \<Rightarrow> catalog_planet \<Rightarrow> bool" where
  "matchesQuery q p =
     (strIncludes (toLowerCase (name p)) q
      \<or> strIncludes (toLowerCase (system p)) q
      \<or> strIncludes (toLowerCase (planetType p)) q
      \<or> (truthyString (discoveryMethod p) \<and> strIncludes (toLowerCase (stringOf (discoveryMethod p))) q)
      \<or> (case constellationOf p of
            Some c \<Rightarrow> const_name c \<noteq> [] \<and> strIncludes (toLowerCase (const_name c)) q
          | None \<Rightarrow> False))"

definition filterChain :: "string nullable \<Rightarrow> filters \<Rightarrow> (catalog_planet \<Rightarrow> bool) option list" where
  "filterChain query fs =
     [guard (truthyString query \<and> trim (stringOf query) \<noteq> [])
        (matchesQuery (toLowerCase (trim (stringOf query)))),
      guard (truthyString (filterType fs)) (\<lambda>p. Val (planetType p) = filterType fs),
      guard (minHabitability fs \<noteq> Undefined)
        (\<lambda>p. js_ge (to_number (habitability p)) (to_number (minHabitability fs))),
      guard (maxDistance fs \<noteq> Undefined)
        (\<lambda>p. js_le (to_number (distance p)) (to_number (maxDistance fs))),
      guard (minDistance fs \<noteq> Undefined)
        (\<lambda>p. js_ge (to_number (distance p)) (to_number (minDistance fs))),
      guard (minTemp fs \<noteq> Undefined)
        (\<lambda>p. js_ge (to_number (eqTemp p)) (to_number (minTemp fs))),
      guard (maxTemp fs \<noteq> Undefined)
        (\<lambda>p. js_le (to_number (eqTemp p)) (to_number (maxTemp fs))),
      guard (minRadius fs \<noteq> Undefined)
        (\<lambda>p. js_ge (to_number (radius p)) (to_number (minRadius fs))),
      guard (maxRadius fs \<noteq> Undefined)
        (\<lambda>p. js_le (to_number (radius p)) (to_number (maxRadius fs))),
      guard (truthyString (filterStarType fs))
        (\<lambda>p. truthyString (starType p)
              \<and> startsWith (stringOf (starType p)) (stringOf (filterStarType fs))),
      guard (truthy (discoveredAfter fs))
        (\<lambda>p. js_ge (to_number (discovered p)) (to_number (discoveredAfter fs))),
      guard (truthyString (filterDiscoveryMethod fs))
        (\<lambda>p. \<not> nullish (discoveryMethod p) \<and> discoveryMethod p = filterDiscoveryMethod fs),
      (if inHZ fs = Val ''conservative''
       then Some (\<lambda>p. case hzStatus p of Some s \<Rightarrow> conservative s | None \<Rightarrow> False)
       else if inHZ fs = Val ''optimistic''
       then Some (\<lambda>p. case hzStatus p of Some s \<Rightarrow> optimistic s | None \<Rightarrow> False)
       else None),
      guard (minESI fs \<noteq> Undefined)
        (\<lambda>p. case esi p of
                Some e \<Rightarrow> js_ge (esi_global e) (to_number (minESI fs))
              | None \<Rightarrow> False)]"

text \<open>The sort key of a record, and the comparator handed to \<open>sort\<close>.\<close>

definition sortKey :: "string \<Rightarrow> catalog_planet \<Rightarrow> jsval" where
  "sortKey by p =
     (if by = ''esi'' then (case esi p of Some e \<Rightarrow> JNum (esi_global e) | None \<Rightarrow> JNum (Fin 0))
      else propertyValue by p)"

fun lowerIfString :: "jsval \<Rightarrow> jsval" where
  "lowerIfString (JStr s) = JStr (toLowerCase s)"
| "lowerIfString v = v"

fun isNullish :: "jsval \<Rightarrow> bool" where
  "isNullish JUndefined = True"
| "isNullish JNull = True"
| "isNullish v = False"

definition comparable :: "string \<Rightarrow> jsval \<Rightarrow> jsval" where
  "comparable dir v =
     (if isNullish (lowerIfString v) then (if dir = ''asc'' then JNum PosInf else JNum NegInf)
      else lowerIfString v)"

definition comparePlanets :: "string \<Rightarrow> string \<Rightarrow> catalog_planet \<Rightarrow> catalog_planet \<Rightarrow> jsnum" where
  "comparePlanets by dir a b =
     (let va = comparable dir (sortKey by a);
          vb = comparable dir (sortKey by b)
      in if jsLess va vb then (if dir = ''asc'' then Fin (- 1) else Fin 1)
         else if jsLess vb va then (if dir = ''asc'' then Fin 1 else Fin (- 1))
         else Fin 0)"

definition orDefault :: "string nullable \<Rightarrow> string \<Rightarrow> string" where
  "orDefault v d = (if truthyString v then stringOf v else d)"

definition searchPlanets :: "heap \<Rightarrow> nat \<Rightarrow> string nullable \<Rightarrow> filters \<Rightarrow> nat \<times> heap" where
  "searchPlanets h PLANET_CATALOG query fs =
     (case foldl filterStep (alloc h (h ! PLANET_CATALOG)) (filterChain query fs) of
        (results, h') \<Rightarrow>
          (results,
           sortInPlace (comparePlanets (orDefault (sortBy fs) ''name'') (orDefault (sortDir fs) ''asc''))
             results h'))"

text \<open>The array a search returns.\<close>

definition searchResults :: "heap \<Rightarrow> nat \<Rightarrow> string nullable \<Rightarrow> filters \<Rightarrow> catalog_planet list" where
  "searchResults h PLANET_CATALOG query fs =
     (case searchPlanets h PLANET_CATALOG query fs of (results, h') \<Rightarrow> h' ! results)"

definition noFilters :: filters where
  "noFilters =
     \<lparr> filterType = Undefined, minHabitability = Undefined, maxDistance = Undefined,
       minDistance = Undefined, minTemp = Undefined, maxTemp = Undefined, minRadius = Undefined,
       maxRadius = Undefined, filterStarType = Undefined, discoveredAfter = Undefined,
       filterDiscoveryMethod = Undefined, inHZ = Undefined, minESI = Undefined,
       sortBy = Undefined, sortDir = Undefined \<rparr>"

definition untypedStar :: catalog_planet where
  "untypedStar = catalogEntry 0 ''Rocky'' (examplePlanet\<lparr> name := ''Alpha b'', starType := Null \<rparr>)"

definition typedStar :: catalog_planet where
  "typedStar = catalogEntry 1 ''Rocky'' (examplePlanet\<lparr> name := ''Beta b'', starType := Val ''G2V'' \<rparr>)"

definition unknownDistance :: catalog_planet where
  "unknownDistance = catalogEntry 2 ''Rocky'' (examplePlanet\<lparr> name := ''Gamma b'', distance := Null \<rparr>)"

definition exampleHeap :: heap where
  "exampleHeap = [[untypedStar, typedStar, unknownDistance]]"

text \<open>A sort key that is missing or a finite number.\<close>

definition numericOrMissing :: "jsval \<Rightarrow> bool" where
  "numericOrMissing v = (case v of JUndefined \<Rightarrow> True | JNull \<Rightarrow> True | JNum (Fin x) \<Rightarrow> True | _ \<Rightarrow> False)"

section \<open>Properties of validateAndClean\<close>

lemma cleanLoop_inv:
  "cleanLoop ps seen rep out = (out', rep') \<Longrightarrow>
     length out' + cleaned rep' = length out + cleaned rep + length ps
     \<and> totalInput rep' = totalInput rep
     \<and> duplicates rep' = duplicates rep
     \<and> set (badValues rep) \<subseteq> set (badValues rep')
     \<and> (\<forall>q\<in>set out'. q \<in> set out \<or>
           (\<exists>p\<in>set ps. q = fillDefaults p \<and> set (rangeChecks p) \<subseteq> set (badValues rep')))"
proof (induction ps seen rep out arbitrary: out' rep' rule: cleanLoop.induct)
  case (1 seenNames rep out)
  then show ?case by auto
next
  case (2 p ps seenNames rep out)
  show ?case
  proof (cases "name p \<in> set seenNames")
    case True
    with 2 show ?thesis by fastforce
  next
    case False
    let ?rep1 = "rep\<lparr> nullFields := tallyNulls p (nullFields rep),
                   controversialCount := controversialCount rep + (if controversial p then 1 else 0),
                   badValues := badValues rep @ rangeChecks p,
                   passed := passed rep + 1 \<rparr>"
    from False "2.prems" have run: "cleanLoop ps (name p # seenNames) ?rep1 (out @ [fillDefaults p]) = (out', rep')"
      by simp
    note ih = "2.IH"(2)[OF False run]
    from ih show ?thesis by (auto; blast)
  qed
qed

lemma validateAndClean_inv:
  assumes "validateAndClean ps = (out, rep)"
  shows "totalOutput rep + cleaned rep = totalInput rep"
    and "totalInput rep = length ps"
    and "totalOutput rep = length out"
    and "\<forall>q\<in>set out. \<exists>p\<in>set ps. q = fillDefaults p \<and> set (rangeChecks p) \<subseteq> set (badValues rep)"
proof -
  obtain out0 rep0 where run: "cleanLoop ps [] (initialReport ps) [] = (out0, rep0)"
    by (cases "cleanLoop ps [] (initialReport ps) []")
  with assms have eq: "out = out0" "rep = rep0\<lparr>totalOutput := length out0\<rparr>"
    by (auto simp: validateAndClean_def)
  note inv = cleanLoop_inv[OF run]
  from inv eq show "totalOutput rep + cleaned rep = totalInput rep"
    by (simp add: initialReport_def)
  from inv eq show "totalInput rep = length ps"
    by (simp add: initialReport_def)
  from eq show "totalOutput rep = length out" by simp
  from inv eq show "\<forall>q\<in>set out. \<exists>p\<in>set ps. q = fillDefaults p \<and> set (rangeChecks p) \<subseteq> set (badValues rep)"
    by simp
qed

lemma fillDefaults_name: "name (fillDefaults p) = name p"
  by (simp add: fillDefaults_def fillSemiMajorAxis_def fillPeriod_def fillEqTemp_def
      fillMass_def fillRadius_def fillDistance_def split: nullable.splits prod.splits)

lemma fillDefaults_distance:
  "distance (fillDefaults p) = (if nullish (distance p) then Val (Fin 0) else distance p)"
  by (simp add: fillDefaults_def fillSemiMajorAxis_def fillPeriod_def fillEqTemp_def
      fillMass_def fillRadius_def fillDistance_def split: nullable.splits prod.splits)

lemma fillDefaults_radius:
  "radius (fillDefaults p) = (if nullish (radius p) then Val (Fin 1) else radius p)"
  by (simp add: fillDefaults_def fillSemiMajorAxis_def fillPeriod_def fillEqTemp_def
      fillMass_def fillRadius_def fillDistance_def split: nullable.splits prod.splits)

lemma fillDefaults_mass:
  "mass (fillDefaults p) =
     (if nullish (mass p) then Val (estimateMass (to_number (radius (fillDefaults p)))) else mass p)"
  by (simp add: fillDefaults_def fillSemiMajorAxis_def fillPeriod_def fillEqTemp_def
      fillMass_def fillRadius_def fillDistance_def split: nullable.splits prod.splits)

lemma fillDefaults_period:
  "period (fillDefaults p) = (if nullish (period p) then Val (Fin 0) else period p)"
  by (simp add: fillDefaults_def fillSemiMajorAxis_def fillPeriod_def fillEqTemp_def
      fillMass_def fillRadius_def fillDistance_def split: nullable.splits prod.splits)

lemma fillDefaults_semiMajorAxis:
  "semiMajorAxis (fillDefaults p) =
     (if nullish (semiMajorAxis p) then Val (Fin 0) else semiMajorAxis p)"
  by (simp add: fillDefaults_def fillSemiMajorAxis_def fillPeriod_def fillEqTemp_def
      fillMass_def fillRadius_def fillDistance_def split: nullable.splits prod.splits)

lemma fillDefaults_eqTemp:
  "eqTemp (fillDefaults p) =
     (if nullish (eqTemp p)
      then (if \<not> nullish (starLum p) \<and> \<not> nullish (semiMajorAxis p)
               \<and> js_gt (to_number (semiMajorAxis p)) (Fin 0)
            then Val (estimateEqTemp (to_number (starLum p)) (to_number (semiMajorAxis p)))
            else Val (Fin 300))
      else eqTemp p)"
  by (simp add: fillDefaults_def fillSemiMajorAxis_def fillPeriod_def fillEqTemp_def
      fillMass_def fillRadius_def fillDistance_def split: nullable.splits prod.splits)

lemma fillDefaults_filledAsSpecified: "filledAsSpecified p (fillDefaults p)"
  unfolding filledAsSpecified_def
  by (simp add: fillDefaults_radius fillDefaults_mass fillDefaults_eqTemp fillDefaults_period
      fillDefaults_semiMajorAxis estimateMass_def estimateEqTemp_def)

lemma filledAsSpecified_nonnull:
  "filledAsSpecified p q \<Longrightarrow>
     \<not> nullish (radius q) \<and> \<not> nullish (mass q) \<and> \<not> nullish (eqTemp q)
     \<and> \<not> nullish (period q) \<and> \<not> nullish (semiMajorAxis q)"
  by (cases "radius p"; cases "mass p"; cases "eqTemp p"; cases "period p";
      cases "semiMajorAxis p") (simp_all add: filledAsSpecified_def)

text \<open>
  Claim C2. For every input list, the report satisfies
  \<open>totalOutput + cleaned \<le> totalInput\<close>, and every record of the cleaned list has
  non-null radius, mass, eqTemp, period and semiMajorAxis, each missing value being filled
  with the default the specification names (\<open>filledAsSpecified\<close>).
\<close>

theorem validateAndClean_accounting:
  assumes "validateAndClean ps = (out, rep)"
  shows "totalOutput rep + cleaned rep \<le> totalInput rep
         \<and> (\<forall>q\<in>set out.
               \<not> nullish (radius q) \<and> \<not> nullish (mass q) \<and> \<not> nullish (eqTemp q)
               \<and> \<not> nullish (period q) \<and> \<not> nullish (semiMajorAxis q)
               \<and> (\<exists>p\<in>set ps. name q = name p \<and> filledAsSpecified p q))"
proof (intro conjI ballI)
  show "totalOutput rep + cleaned rep \<le> totalInput rep"
    using validateAndClean_inv(1)[OF assms] by simp
next
  fix q assume "q \<in> set out"
  with validateAndClean_inv(4)[OF assms] obtain p where p: "p \<in> set ps" "q = fillDefaults p"
    by blast
  have spec: "filledAsSpecified p q"
    using p(2) fillDefaults_filledAsSpecified by simp
  from filledAsSpecified_nonnull[OF spec]
  show "\<not> nullish (radius q)" "\<not> nullish (mass q)" "\<not> nullish (eqTemp q)"
    "\<not> nullish (period q)" "\<not> nullish (semiMajorAxis q)"
    by simp_all
  from p spec show "\<exists>p\<in>set ps. name q = name p \<and> filledAsSpecified p q"
    using fillDefaults_name by blast
qed

theorem validateAndClean_accounting_witness:
  "(totalInput (snd (validateAndClean exampleInput)) = 3
    \<and> cleaned (snd (validateAndClean exampleInput)) = 1
    \<and> totalOutput (snd (validateAndClean exampleInput)) = 2
    \<and> map name (fst (validateAndClean exampleInput)) = [''Kepler-22 b'', ''Negative b''])
   \<and> totalOutput (snd (validateAndClean exampleInput)) + cleaned (snd (validateAndClean exampleInput))
         \<le> totalInput (snd (validateAndClean exampleInput))
   \<and> \<not> nullish (radius (hd (fst (validateAndClean exampleInput))))
   \<and> \<not> nullish (mass (hd (fst (validateAndClean exampleInput))))
   \<and> \<not> nullish (eqTemp (hd (fst (validateAndClean exampleInput))))
   \<and> \<not> nullish (period (hd (fst (validateAndClean exampleInput))))
   \<and> \<not> nullish (semiMajorAxis (hd (fst (validateAndClean exampleInput))))
   \<and> (\<exists>p\<in>set exampleInput. name (hd (fst (validateAndClean exampleInput))) = name p
         \<and> filledAsSpecified p (hd (fst (validateAndClean exampleInput))))"
proof -
  have run: "validateAndClean exampleInput
               = (fst (validateAndClean exampleInput), snd (validateAndClean exampleInput))"
    by simp
  have ev: "totalInput (snd (validateAndClean exampleInput)) = 3
      \<and> cleaned (snd (validateAndClean exampleInput)) = 1
      \<and> totalOutput (snd (validateAndClean exampleInput)) = 2
      \<and> map name (fst (validateAndClean exampleInput)) = [''Kepler-22 b'', ''Negative b'']"
    by (simp add: exampleInput_def validateAndClean_def initialReport_def examplePlanet_def
        negativePlanet_def fillDefaults_def fillSemiMajorAxis_def fillPeriod_def fillEqTemp_def
        fillMass_def fillRadius_def fillDistance_def)
  then have "fst (validateAndClean exampleInput) \<noteq> []"
    by auto
  then have mem: "hd (fst (validateAndClean exampleInput)) \<in> set (fst (validateAndClean exampleInput))"
    by simp
  note main = validateAndClean_accounting[OF run]
  from main have acc: "totalOutput (snd (validateAndClean exampleInput))
      + cleaned (snd (validateAndClean exampleInput)) \<le> totalInput (snd (validateAndClean exampleInput))"
    by (rule conjunct1)
  from main mem have rec: "\<not> nullish (radius (hd (fst (validateAndClean exampleInput))))
   \<and> \<not> nullish (mass (hd (fst (validateAndClean exampleInput))))
   \<and> \<not> nullish (eqTemp (hd (fst (validateAndClean exampleInput))))
   \<and> \<not> nullish (period (hd (fst (validateAndClean exampleInput))))
   \<and> \<not> nullish (semiMajorAxis (hd (fst (validateAndClean exampleInput))))
   \<and> (\<exists>p\<in>set exampleInput. name (hd (fst (validateAndClean exampleInput))) = name p
         \<and> filledAsSpecified p (hd (fst (validateAndClean exampleInput))))"
    by blast
  show ?thesis
    by (rule conjI[OF ev conjI[OF acc rec]])
qed

lemma rangeChecks_flags:
  "radius p = Val x \<Longrightarrow> js_le x (Fin 0) \<Longrightarrow>
     \<lparr> bv_name = name p, bv_field = ''radius'', bv_value = x \<rparr> \<in> set (rangeChecks p)"
  "mass p = Val y \<Longrightarrow> js_le y (Fin 0) \<Longrightarrow>
     \<lparr> bv_name = name p, bv_field = ''mass'', bv_value = y \<rparr> \<in> set (rangeChecks p)"
  "distance p = Val z \<Longrightarrow> js_le z (Fin 0) \<Longrightarrow>
     \<lparr> bv_name = name p, bv_field = ''distance'', bv_value = z \<rparr> \<in> set (rangeChecks p)"
  by (simp_all add: rangeChecks_def)

lemma flagged_of_rangeChecks:
  assumes "set (rangeChecks p) \<subseteq> set (badValues rep)"
  shows "flagged rep (name p) ''radius'' (radius p)"
    and "flagged rep (name p) ''mass'' (mass p)"
    and "flagged rep (name p) ''distance'' (distance p)"
  using assms rangeChecks_flags[of p]
  by (auto simp: flagged_def split: nullable.splits)

lemma estimateMass_nonneg:
  "js_ge r (Fin 0) \<Longrightarrow> js_ge (estimateMass r) (Fin 0)"
  by (cases r) (auto simp: estimateMass_def js_ge_def js_le_def js_gt_def signed_inf_def)

lemma nonNegative_fill:
  assumes "nullish (radius p) \<or> nonNegative (radius p)"
    and "nullish (mass p) \<or> nonNegative (mass p)"
    and "nullish (distance p) \<or> nonNegative (distance p)"
  shows "nonNegative (radius (fillDefaults p)) \<and> nonNegative (mass (fillDefaults p))
         \<and> nonNegative (distance (fillDefaults p))"
proof -
  have r: "nonNegative (radius (fillDefaults p))"
    using assms(1) by (cases "radius p") (simp_all add: fillDefaults_radius nonNegative_def js_ge_def js_le_def)
  then have "js_ge (to_number (radius (fillDefaults p))) (Fin 0)"
    by (cases "radius (fillDefaults p)") (simp_all add: nonNegative_def)
  then have "js_ge (estimateMass (to_number (radius (fillDefaults p)))) (Fin 0)"
    by (rule estimateMass_nonneg)
  then have m: "nonNegative (mass (fillDefaults p))"
    using assms(2) by (cases "mass p") (simp_all add: fillDefaults_mass nonNegative_def)
  have d: "nonNegative (distance (fillDefaults p))"
    using assms(3) by (cases "distance p") (simp_all add: fillDefaults_distance nonNegative_def js_ge_def js_le_def)
  from r m d show ?thesis by simp
qed

text \<open>
  Claim C3, as amended. Every record of the cleaned list has non-null radius, mass and
  distance. A missing value is replaced by its default (distance 0, radius 1.0, mass
  estimated from the radius); a value that is present is kept as it is, and when it is
  zero or negative it is recorded in \<open>report.badValues\<close> rather than replaced. Hence
  radius, mass and distance are non-negative in the output for every record whose incoming
  values were missing or non-negative.
\<close>

theorem validateAndClean_keeps_present_values:
  assumes "validateAndClean ps = (out, rep)"
  shows "\<forall>q\<in>set out.
           \<not> nullish (radius q) \<and> \<not> nullish (mass q) \<and> \<not> nullish (distance q)
           \<and> (\<exists>p\<in>set ps. name q = name p
                 \<and> distance q = (if nullish (distance p) then Val (Fin 0) else distance p)
                 \<and> radius q = (if nullish (radius p) then Val (Fin 1) else radius p)
                 \<and> mass q = (if nullish (mass p) then Val (estimateMass (to_number (radius q)))
                             else mass p)
                 \<and> flagged rep (name p) ''radius'' (radius p)
                 \<and> flagged rep (name p) ''mass'' (mass p)
                 \<and> flagged rep (name p) ''distance'' (distance p)
                 \<and> ((nullish (radius p) \<or> nonNegative (radius p))
                      \<and> (nullish (mass p) \<or> nonNegative (mass p))
                      \<and> (nullish (distance p) \<or> nonNegative (distance p))
                    \<longrightarrow> nonNegative (radius q) \<and> nonNegative (mass q) \<and> nonNegative (distance q)))"
proof
  fix q assume "q \<in> set out"
  with validateAndClean_inv(4)[OF assms] obtain p
    where p: "p \<in> set ps" "q = fillDefaults p" "set (rangeChecks p) \<subseteq> set (badValues rep)"
    by blast
  have nn: "\<not> nullish (radius q) \<and> \<not> nullish (mass q) \<and> \<not> nullish (distance q)"
    unfolding p(2)
    by (cases "radius p"; cases "mass p"; cases "distance p")
       (simp_all add: fillDefaults_radius fillDefaults_mass fillDefaults_distance)
  have rel: "name q = name p
      \<and> distance q = (if nullish (distance p) then Val (Fin 0) else distance p)
      \<and> radius q = (if nullish (radius p) then Val (Fin 1) else radius p)
      \<and> mass q = (if nullish (mass p) then Val (estimateMass (to_number (radius q))) else mass p)"
    unfolding p(2)
    using fillDefaults_name fillDefaults_distance fillDefaults_radius fillDefaults_mass by simp
  note fl = flagged_of_rangeChecks[OF p(3)]
  have pos: "(nullish (radius p) \<or> nonNegative (radius p))
              \<and> (nullish (mass p) \<or> nonNegative (mass p))
              \<and> (nullish (distance p) \<or> nonNegative (distance p))
            \<longrightarrow> nonNegative (radius q) \<and> nonNegative (mass q) \<and> nonNegative (distance q)"
    unfolding p(2) using nonNegative_fill by blast
  from nn rel fl pos p(1)
  show "\<not> nullish (radius q) \<and> \<not> nullish (mass q) \<and> \<not> nullish (distance q)
           \<and> (\<exists>p\<in>set ps. name q = name p
                 \<and> distance q = (if nullish (distance p) then Val (Fin 0) else distance p)
                 \<and> radius q = (if nullish (radius p) then Val (Fin 1) else radius p)
                 \<and> mass q = (if nullish (mass p) then Val (estimateMass (to_number (radius q)))
                             else mass p)
                 \<and> flagged rep (name p) ''radius'' (radius p)
                 \<and> flagged rep (name p) ''mass'' (mass p)
                 \<and> flagged rep (name p) ''distance'' (distance p)
                 \<and> ((nullish (radius p) \<or> nonNegative (radius p))
                      \<and> (nullish (mass p) \<or> nonNegative (mass p))
                      \<and> (nullish (distance p) \<or> nonNegative (distance p))
                    \<longrightarrow> nonNegative (radius q) \<and> nonNegative (mass q) \<and> nonNegative (distance q)))"
    by blast
qed

theorem validateAndClean_keeps_present_values_witness:
  "(map radius (fst (validateAndClean exampleInput)) = [Val (Fin 2), Val (Fin (- 1))]
    \<and> map mass exampleInput = [Null, Val (Fin (- 3)), Null]
    \<and> badValues (snd (validateAndClean exampleInput))
        = [\<lparr> bv_name = ''Negative b'', bv_field = ''radius'', bv_value = Fin (- 1) \<rparr>,
           \<lparr> bv_name = ''Negative b'', bv_field = ''mass'', bv_value = Fin (- 3) \<rparr>,
           \<lparr> bv_name = ''Negative b'', bv_field = ''distance'', bv_value = Fin (- 10) \<rparr>])
   \<and> nonNegative (radius (hd (fst (validateAndClean exampleInput))))
   \<and> nonNegative (mass (hd (fst (validateAndClean exampleInput))))
   \<and> nonNegative (distance (hd (fst (validateAndClean exampleInput))))"
proof -
  let ?q = "hd (fst (validateAndClean exampleInput))"
  have run: "validateAndClean exampleInput
               = (fst (validateAndClean exampleInput), snd (validateAndClean exampleInput))"
    by simp
  have ev: "map radius (fst (validateAndClean exampleInput)) = [Val (Fin 2), Val (Fin (- 1))]
    \<and> map mass exampleInput = [Null, Val (Fin (- 3)), Null]
    \<and> badValues (snd (validateAndClean exampleInput))
        = [\<lparr> bv_name = ''Negative b'', bv_field = ''radius'', bv_value = Fin (- 1) \<rparr>,
           \<lparr> bv_name = ''Negative b'', bv_field = ''mass'', bv_value = Fin (- 3) \<rparr>,
           \<lparr> bv_name = ''Negative b'', bv_field = ''distance'', bv_value = Fin (- 10) \<rparr>]"
    by (simp add: exampleInput_def validateAndClean_def initialReport_def examplePlanet_def
        negativePlanet_def fillDefaults_def fillSemiMajorAxis_def fillPeriod_def fillEqTemp_def
        fillMass_def fillRadius_def fillDistance_def rangeChecks_def js_le_def js_gt_def)
  then have "fst (validateAndClean exampleInput) \<noteq> []"
    by auto
  then have mem: "?q \<in> set (fst (validateAndClean exampleInput))"
    by simp
  have nm: "name ?q = ''Kepler-22 b''"
    by (simp add: exampleInput_def validateAndClean_def initialReport_def examplePlanet_def
        negativePlanet_def fillDefaults_def fillSemiMajorAxis_def fillPeriod_def fillEqTemp_def
        fillMass_def fillRadius_def fillDistance_def)
  from validateAndClean_keeps_present_values[OF run] mem
  obtain p where p: "p \<in> set exampleInput" "name ?q = name p"
    and imp: "(nullish (radius p) \<or> nonNegative (radius p))
                \<and> (nullish (mass p) \<or> nonNegative (mass p))
                \<and> (nullish (distance p) \<or> nonNegative (distance p))
              \<longrightarrow> nonNegative (radius ?q) \<and> nonNegative (mass ?q) \<and> nonNegative (distance ?q)"
    by blast
  from p nm have "p = examplePlanet"
    by (auto simp: exampleInput_def negativePlanet_def)
  then have "(nullish (radius p) \<or> nonNegative (radius p))
                \<and> (nullish (mass p) \<or> nonNegative (mass p))
                \<and> (nullish (distance p) \<or> nonNegative (distance p))"
    by (simp add: examplePlanet_def nonNegative_def js_ge_def js_le_def)
  with imp have res: "nonNegative (radius ?q) \<and> nonNegative (mass ?q) \<and> nonNegative (distance ?q)"
    by (rule mp)
  show ?thesis
    by (rule conjI[OF ev res])
qed

text \<open>
  Claim C3 as stated fails: a record that arrives with negative radius, mass and distance
  is flagged and kept, and leaves the cleaner with the same negative values.
\<close>

theorem cleaned_keeps_negative_values_counterexample:
  "map radius (fst (validateAndClean [negativePlanet])) = [Val (Fin (- 1))]
   \<and> map mass (fst (validateAndClean [negativePlanet])) = [Val (Fin (- 3))]
   \<and> map distance (fst (validateAndClean [negativePlanet])) = [Val (Fin (- 10))]
   \<and> \<not> js_ge (Fin (- 1)) (Fin 0) \<and> \<not> js_ge (Fin (- 3)) (Fin 0) \<and> \<not> js_ge (Fin (- 10)) (Fin 0)"
  by (simp add: validateAndClean_def initialReport_def examplePlanet_def
        negativePlanet_def fillDefaults_def fillSemiMajorAxis_def fillPeriod_def fillEqTemp_def
        fillMass_def fillRadius_def fillDistance_def js_ge_def js_le_def)

text \<open>
  Claim C4. Two records that share the name \<open>constructor\<close>: the cleaned list holds exactly
  one record of that name, but \<open>report.duplicates\<close> has no entry for it, because the count
  kept in the object \<open>nameCounts\<close> started from the inherited property and is not a number.
\<close>

theorem duplicates_miss_prototype_method_name:
  "name constructorPlanet = ''constructor'' \<and> name constructorPlanet2 = ''constructor''
   \<and> map name (fst (validateAndClean [constructorPlanet, constructorPlanet2])) = [''constructor'']
   \<and> duplicates (snd (validateAndClean [constructorPlanet, constructorPlanet2])) = []"
  by (simp add: validateAndClean_def initialReport_def examplePlanet_def constructorPlanet_def
      constructorPlanet2_def countName_def object_entries_def is_array_index_def digit_chars_def
      object_prototype_methods_def fillDefaults_def fillSemiMajorAxis_def fillPeriod_def
      fillEqTemp_def fillMass_def fillRadius_def fillDistance_def)

subsection \<open>Names that are not members of Object.prototype are counted\<close>

lemma map_of_set_property:
  "map_of (assignProperty k v m) k' = (if k' = k then Some v else map_of m k')"
  by (induction m) auto

lemma map_of_countName:
  assumes "ordinaryName n"
  shows "map_of (countName m k) n
           = (if k = n then (case map_of m n of
                               None \<Rightarrow> Some (Count 1)
                             | Some (Count c) \<Rightarrow> Some (Count (c + 1))
                             | Some Text \<Rightarrow> Some Text)
              else map_of m n)"
  using assms
  by (auto simp: countName_def ordinaryName_def map_of_set_property
      split: option.splits count_val.splits)

lemma map_of_foldl_countName:
  assumes "ordinaryName n"
    "map_of m n = None \<and> c = 0 \<or> map_of m n = Some (Count c) \<and> 0 < c"
  shows "map_of (foldl countName m ks) n
           = (if c + count_list ks n = 0 then None else Some (Count (c + count_list ks n)))"
  using assms(2)
proof (induction ks arbitrary: m c)
  case Nil
  then show ?case by auto
next
  case (Cons k ks)
  show ?case
  proof (cases "k = n")
    case True
    have "map_of (countName m k) n = Some (Count (c + 1))"
      using Cons.prems True by (auto simp: map_of_countName[OF assms(1)])
    then have "map_of (foldl countName (countName m k) ks) n
        = (if c + 1 + count_list ks n = 0 then None else Some (Count (c + 1 + count_list ks n)))"
      using Cons.IH[of "countName m k" "c + 1"] by simp
    with True show ?thesis by simp
  next
    case False
    have "map_of (countName m k) n = map_of m n"
      using False by (simp add: map_of_countName[OF assms(1)])
    then have "map_of (foldl countName (countName m k) ks) n
        = (if c + count_list ks n = 0 then None else Some (Count (c + count_list ks n)))"
      using Cons.IH[of "countName m k" c] Cons.prems by simp
    with False show ?thesis by simp
  qed
qed

lemma set_object_entries: "set (object_entries m) = set m"
  by (auto simp: object_entries_def)

lemma count_list_names: "count_list (map name ps) n = length (filter (\<lambda>p. name p = n) ps)"
  by (induction ps) auto

lemma cleanLoop_first_occurrence:
  assumes "cleanLoop ps seen rep out = (out', rep')"
  shows "filter (\<lambda>q. name q = n) out'
           = filter (\<lambda>q. name q = n) out
             @ (if n \<in> set seen then []
                else map fillDefaults (take 1 (filter (\<lambda>p. name p = n) ps)))"
  using assms
proof (induction ps seen rep out arbitrary: out' rep' rule: cleanLoop.induct)
  case (1 seenNames rep out)
  then show ?case by simp
next
  case (2 p ps seenNames rep out)
  show ?case
  proof (cases "name p \<in> set seenNames")
    case True
    with "2.prems" have "cleanLoop ps seenNames (rep\<lparr>cleaned := cleaned rep + 1\<rparr>) out = (out', rep')"
      by simp
    from "2.IH"(1)[OF True this] True show ?thesis by auto
  next
    case False
    with "2.prems" have run: "cleanLoop ps (name p # seenNames)
             (rep\<lparr> nullFields := tallyNulls p (nullFields rep),
                   controversialCount := controversialCount rep + (if controversial p then 1 else 0),
                   badValues := badValues rep @ rangeChecks p,
                   passed := passed rep + 1 \<rparr>)
             (out @ [fillDefaults p]) = (out', rep')"
      by simp
    from "2.IH"(2)[OF False run] False show ?thesis
      by (auto simp: fillDefaults_name)
  qed
qed

text \<open>
  For every other name the report is as specified: when exactly two records share a name
  that no member of \<open>Object.prototype\<close> bears, the cleaned list keeps the first of them
  and \<open>report.duplicates\<close> holds the name with count 2.
\<close>

lemma duplicates_recorded_for_ordinary_names:
  assumes "validateAndClean ps = (out, rep)"
    and "filter (\<lambda>p. name p = n) ps = [first, second]"
    and "ordinaryName n"
  shows "filter (\<lambda>q. name q = n) out = [fillDefaults first] \<and> (n, Count 2) \<in> set (duplicates rep)"
proof -
  obtain out0 rep0 where run: "cleanLoop ps [] (initialReport ps) [] = (out0, rep0)"
    by (cases "cleanLoop ps [] (initialReport ps) []")
  with assms(1) have eq: "out = out0" "rep = rep0\<lparr>totalOutput := length out0\<rparr>"
    by (auto simp: validateAndClean_def)
  from cleanLoop_first_occurrence[OF run, of n] assms(2) eq
  have kept: "filter (\<lambda>q. name q = n) out = [fillDefaults first]"
    by simp
  have "count_list (map name ps) n = 2"
    using assms(2) by (simp add: count_list_names)
  then have "map_of (foldl countName [] (map name ps)) n = Some (Count 2)"
    using map_of_foldl_countName[OF assms(3), of "[]" 0 "map name ps"] by simp
  then have "(n, Count 2) \<in> set (object_entries (foldl countName [] (map name ps)))"
    by (simp add: set_object_entries map_of_SomeD)
  then have "(n, Count 2) \<in> set (duplicates (initialReport ps))"
    by (simp add: initialReport_def)
  moreover have "duplicates rep = duplicates (initialReport ps)"
    using cleanLoop_inv[OF run] eq by simp
  ultimately show ?thesis using kept by simp
qed

section \<open>Properties of the cache predicates and of loadNASAPlanets\<close>

text \<open>
  Claim C5. \<open>isCacheFresh\<close> holds iff the metadata exists, its version is the current
  one and its age is below 24 hours; \<open>isCacheUsable\<close> likewise with 7 days. With a
  matching version, an entry aged 23h59m is fresh, one aged 24h01m is not fresh but
  usable, and one aged 7 days and 1 hour is neither.
\<close>

theorem cache_staleness_predicates:
  "(isCacheFresh st now \<longleftrightarrow>
      (\<exists>m. getCacheMeta st = Some m \<and> version m = CACHE_VERSION
           \<and> now - fetchedAt m < 24 * 60 * 60 * 1000))
   \<and> (isCacheUsable st now \<longleftrightarrow>
      (\<exists>m. getCacheMeta st = Some m \<and> version m = CACHE_VERSION
           \<and> now - fetchedAt m < 7 * 24 * 60 * 60 * 1000))
   \<and> (\<forall>m. getCacheMeta st = Some m \<and> version m = CACHE_VERSION \<longrightarrow>
        (now - fetchedAt m = 23 * 3600000 + 59 * 60000 \<longrightarrow> isCacheFresh st now)
        \<and> (now - fetchedAt m = 24 * 3600000 + 60000 \<longrightarrow>
              \<not> isCacheFresh st now \<and> isCacheUsable st now)
        \<and> (now - fetchedAt m = 7 * 24 * 3600000 + 3600000 \<longrightarrow>
              \<not> isCacheFresh st now \<and> \<not> isCacheUsable st now))"
  by (cases "getCacheMeta st")
     (simp_all add: isCacheFresh_def isCacheUsable_def CACHE_MAX_AGE_MS_def CACHE_STALE_AGE_MS_def)

theorem cache_staleness_predicates_witness:
  "(getCacheMeta exampleStorage = Some exampleMeta \<and> version exampleMeta = CACHE_VERSION
    \<and> fetchedAt exampleMeta = 1000000000000)
   \<and> isCacheFresh exampleStorage (1000000000000 + (23 * 3600000 + 59 * 60000))
   \<and> \<not> isCacheFresh exampleStorage (1000000000000 + (24 * 3600000 + 60000))
   \<and> isCacheUsable exampleStorage (1000000000000 + (24 * 3600000 + 60000))
   \<and> \<not> isCacheFresh exampleStorage (1000000000000 + (7 * 24 * 3600000 + 3600000))
   \<and> \<not> isCacheUsable exampleStorage (1000000000000 + (7 * 24 * 3600000 + 3600000))"
proof -
  have m: "getCacheMeta exampleStorage = Some exampleMeta \<and> version exampleMeta = CACHE_VERSION
    \<and> fetchedAt exampleMeta = 1000000000000"
    by (simp add: getCacheMeta_def exampleStorage_def exampleMeta_def CACHE_VERSION_def)
  then have hyp: "getCacheMeta exampleStorage = Some exampleMeta \<and> version exampleMeta = CACHE_VERSION"
    by simp
  have age: "\<And>a::int. 1000000000000 + a - fetchedAt exampleMeta = a"
    using m by simp
  have a: "isCacheFresh exampleStorage (1000000000000 + (23 * 3600000 + 59 * 60000))"
    using cache_staleness_predicates[of exampleStorage "1000000000000 + (23 * 3600000 + 59 * 60000)"]
      hyp age by blast
  have b: "\<not> isCacheFresh exampleStorage (1000000000000 + (24 * 3600000 + 60000))
       \<and> isCacheUsable exampleStorage (1000000000000 + (24 * 3600000 + 60000))"
    using cache_staleness_predicates[of exampleStorage "1000000000000 + (24 * 3600000 + 60000)"]
      hyp age by blast
  have c: "\<not> isCacheFresh exampleStorage (1000000000000 + (7 * 24 * 3600000 + 3600000))
       \<and> \<not> isCacheUsable exampleStorage (1000000000000 + (7 * 24 * 3600000 + 3600000))"
    using cache_staleness_predicates[of exampleStorage "1000000000000 + (7 * 24 * 3600000 + 3600000)"]
      hyp age by blast
  from m a b c show ?thesis by blast
qed







section \<open>Properties of the science module\<close>

lemma js_pow_3: "js_pow (Fin t) (Fin 3) = Fin (t ^ 3)"
proof -
  have "\<lfloor>3::real\<rfloor> = 3" by simp
  then show ?thesis
    by (simp add: is_int_def powr_numeral)
qed

lemma js_pow_4: "js_pow (Fin t) (Fin 4) = Fin (t ^ 4)"
proof -
  have "\<lfloor>4::real\<rfloor> = 4" by simp
  then show ?thesis
    by (simp add: is_int_def powr_numeral)
qed

lemma sEff_Fin: "sEff (Fin t) co = Fin (flux co t)"
  by (simp add: sEff_def flux_def js_pow_3 js_pow_4 del: js_pow.simps)

lemma power_bounds_nonneg:
  fixes s :: real
  assumes "l \<le> s" "s \<le> h" "0 \<le> l"
  shows "l ^ 2 \<le> s ^ 2" "s ^ 2 \<le> h ^ 2" "l ^ 3 \<le> s ^ 3" "s ^ 3 \<le> h ^ 3"
    "l ^ 4 \<le> s ^ 4" "s ^ 4 \<le> h ^ 4"
  using assms by (auto intro!: power_mono)

lemma flux_expand:
  "flux earlyMars t = 3207 / 10000 + 54471 / 1000000000 * t + 15275 / 10000000000000 * t ^ 2
      - 21709 / 10000000000000000 * t ^ 3 - 38282 / 100000000000000000000 * t ^ 4"
  "flux maxGreenhouse t = 3507 / 10000 + 59578 / 1000000000 * t + 16707 / 10000000000000 * t ^ 2
      - 30058 / 10000000000000000 * t ^ 3 - 51925 / 100000000000000000000 * t ^ 4"
  "flux runawayGH t = 10385 / 10000 + 12456 / 100000000 * t + 14612 / 1000000000000 * t ^ 2
      - 76345 / 10000000000000000 * t ^ 3 - 17511 / 10000000000000000000 * t ^ 4"
  "flux recentVenus t = 17763 / 10000 + 14335 / 100000000 * t + 33954 / 10000000000000 * t ^ 2
      - 76364 / 10000000000000000 * t ^ 3 - 11950 / 10000000000000000000 * t ^ 4"
  by (simp_all add: flux_def earlyMars_def maxGreenhouse_def runawayGH_def recentVenus_def
      power2_eq_square)

lemma flux_order:
  assumes "- 3180 \<le> t" "t \<le> 1420"
  shows "0 < flux earlyMars t \<and> flux earlyMars t \<le> flux maxGreenhouse t
         \<and> flux maxGreenhouse t \<le> flux runawayGH t \<and> flux runawayGH t \<le> flux recentVenus t"
proof -
  consider "0 \<le> t" | "- 2000 \<le> t" "t < 0" | "t < - 2000" by linarith
  then show ?thesis
  proof cases
    case 1
    from power_bounds_nonneg[of 0 t 1420] 1 assms
    have b: "0 \<le> t ^ 2" "t ^ 2 \<le> 2016400" "0 \<le> t ^ 3" "t ^ 3 \<le> 2863288000"
      "0 \<le> t ^ 4" "t ^ 4 \<le> 4065868960000"
      by simp_all
    have "0 < flux earlyMars t" unfolding flux_expand using 1 b by linarith
    moreover have "flux earlyMars t \<le> flux maxGreenhouse t" unfolding flux_expand using 1 b by linarith
    moreover have "flux maxGreenhouse t \<le> flux runawayGH t" unfolding flux_expand using 1 b by linarith
    moreover have "flux runawayGH t \<le> flux recentVenus t" unfolding flux_expand using 1 b by linarith
    ultimately show ?thesis by simp
  next
    case 2
    define s where "s = - t"
    have s: "0 \<le> s" "s \<le> 2000" using 2 by (simp_all add: s_def)
    have t: "t ^ 2 = s ^ 2" "t ^ 3 = - (s ^ 3)" "t ^ 4 = s ^ 4" by (simp_all add: s_def)
    from power_bounds_nonneg[of 0 s 2000] s
    have b: "0 \<le> s ^ 2" "s ^ 2 \<le> 4000000" "0 \<le> s ^ 3" "s ^ 3 \<le> 8000000000"
      "0 \<le> s ^ 4" "s ^ 4 \<le> 16000000000000"
      by simp_all
    have "0 < flux earlyMars t" unfolding flux_expand t using 2 b by linarith
    moreover have "flux earlyMars t \<le> flux maxGreenhouse t" unfolding flux_expand t using 2 b by linarith
    moreover have "flux maxGreenhouse t \<le> flux runawayGH t" unfolding flux_expand t using 2 b by linarith
    moreover have "flux runawayGH t \<le> flux recentVenus t" unfolding flux_expand t using 2 b by linarith
    ultimately show ?thesis by simp
  next
    case 3
    define s where "s = - t"
    have s: "2000 \<le> s" "s \<le> 3180" using 3 assms by (simp_all add: s_def)
    have t: "t ^ 2 = s ^ 2" "t ^ 3 = - (s ^ 3)" "t ^ 4 = s ^ 4" by (simp_all add: s_def)
    from power_bounds_nonneg[of 2000 s 3180] s
    have b: "4000000 \<le> s ^ 2" "s ^ 2 \<le> 10112400" "8000000000 \<le> s ^ 3" "s ^ 3 \<le> 32157432000"
      "16000000000000 \<le> s ^ 4" "s ^ 4 \<le> 102260633760000"
      by simp_all
    have "0 < flux earlyMars t" unfolding flux_expand t using 3 assms b by linarith
    moreover have "flux earlyMars t \<le> flux maxGreenhouse t" unfolding flux_expand t using 3 assms b by linarith
    moreover have "flux maxGreenhouse t \<le> flux runawayGH t" unfolding flux_expand t using 3 assms b by linarith
    moreover have "flux runawayGH t \<le> flux recentVenus t" unfolding flux_expand t using 3 assms b by linarith
    ultimately show ?thesis by simp
  qed
qed

lemma clamp_range:
  assumes "teff \<noteq> NaN"
  shows "\<exists>c. js_max (Fin 2600) (js_min (Fin 7200) teff) = Fin c \<and> 2600 \<le> c \<and> c \<le> 7200"
  using assms by (cases teff) (auto simp: js_max_def js_min_def)

lemma distAU_antimono:
  assumes "0 < s1" "s1 \<le> s2" "lum \<noteq> NaN" "\<not> js_le lum (Fin 0)"
  shows "js_le (distAU lum (Fin s2)) (distAU lum (Fin s1))"
proof (cases lum)
  case (Fin l)
  with assms have l: "0 < l" by (simp add: js_le_def)
  have "l / s2 \<le> l / s1"
    using assms l by (simp add: frac_le)
  then have "sqrt (l / s2) \<le> sqrt (l / s1)" by simp
  moreover have "0 \<le> l / s2" "0 \<le> l / s1" using assms l by simp_all
  ultimately show ?thesis
    using Fin l assms by (simp add: distAU_def js_le_def not_less)
next
  case PosInf
  with assms show ?thesis
    by (simp add: distAU_def js_le_def signed_inf_def)
qed (use assms in \<open>simp_all add: js_le_def\<close>)

text \<open>
  Claim C7. Whenever \<open>calculateHabitableZone\<close> accepts its arguments, the optimistic
  zone contains the conservative one:
  \<open>optimisticInner \<le> conservativeInner \<le> conservativeOuter \<le> optimisticOuter\<close>. The four
  fluxes are ordered and positive over the clamped range, \<open>tStar\<close> between \<open>-3180\<close> and
  \<open>1420\<close> (\<open>flux_order\<close>).
\<close>

theorem habitable_zone_nesting:
  assumes "calculateHabitableZone starTeff starLuminosity = Some z"
  shows "js_le (optimisticInner z) (conservativeInner z)
         \<and> js_le (conservativeInner z) (conservativeOuter z)
         \<and> js_le (conservativeOuter z) (optimisticOuter z)"
proof -
  from assms have ok: "truthy starTeff" "truthy starLuminosity"
    "\<not> js_le (to_number starLuminosity) (Fin 0)"
    by (auto simp: calculateHabitableZone_def split: if_splits)
  define lum where "lum = to_number starLuminosity"
  from ok have "to_number starTeff \<noteq> NaN"
    by (cases starTeff) (simp_all add: truthy_def)
  from clamp_range[OF this] obtain c
    where c: "js_max (Fin 2600) (js_min (Fin 7200) (to_number starTeff)) = Fin c"
      "2600 \<le> c" "c \<le> 7200"
    by blast
  define t where "t = c - 5780"
  have t: "- 3180 \<le> t" "t \<le> 1420" using c by (simp_all add: t_def)
  have tStar: "js_sub (js_max (Fin 2600) (js_min (Fin 7200) (to_number starTeff))) (Fin 5780) = Fin t"
    by (simp add: c js_sub_def t_def)
  from ok have lum: "lum \<noteq> NaN" "\<not> js_le lum (Fin 0)"
    by (cases starLuminosity; simp add: truthy_def lum_def)+
  from assms ok have z: "conservativeInner z = distAU lum (Fin (flux runawayGH t))"
    "conservativeOuter z = distAU lum (Fin (flux maxGreenhouse t))"
    "optimisticInner z = distAU lum (Fin (flux recentVenus t))"
    "optimisticOuter z = distAU lum (Fin (flux earlyMars t))"
    by (auto simp: calculateHabitableZone_def Let_def tStar sEff_Fin lum_def)
  note ord = flux_order[OF t]
  from ord have pos: "0 < flux earlyMars t" "0 < flux maxGreenhouse t" "0 < flux runawayGH t"
    by linarith+
  have "js_le (optimisticInner z) (conservativeInner z)"
    unfolding z using distAU_antimono[OF pos(3) _ lum] ord by blast
  moreover have "js_le (conservativeInner z) (conservativeOuter z)"
    unfolding z using distAU_antimono[OF pos(2) _ lum] ord by blast
  moreover have "js_le (conservativeOuter z) (optimisticOuter z)"
    unfolding z using distAU_antimono[OF pos(1) _ lum] ord by blast
  ultimately show ?thesis by simp
qed

theorem habitable_zone_nesting_witness:
  "calculateHabitableZone (Val (Fin 5780)) (Val (Fin 1)) \<noteq> None
   \<and> js_le (optimisticInner (the (calculateHabitableZone (Val (Fin 5780)) (Val (Fin 1)))))
            (conservativeInner (the (calculateHabitableZone (Val (Fin 5780)) (Val (Fin 1)))))
   \<and> js_le (conservativeInner (the (calculateHabitableZone (Val (Fin 5780)) (Val (Fin 1)))))
            (conservativeOuter (the (calculateHabitableZone (Val (Fin 5780)) (Val (Fin 1)))))
   \<and> js_le (conservativeOuter (the (calculateHabitableZone (Val (Fin 5780)) (Val (Fin 1)))))
            (optimisticOuter (the (calculateHabitableZone (Val (Fin 5780)) (Val (Fin 1)))))"
proof -
  have some: "calculateHabitableZone (Val (Fin 5780)) (Val (Fin 1)) \<noteq> None"
    by (simp add: calculateHabitableZone_def truthy_def js_le_def Let_def)
  then have run: "calculateHabitableZone (Val (Fin 5780)) (Val (Fin 1))
      = Some (the (calculateHabitableZone (Val (Fin 5780)) (Val (Fin 1))))"
    by simp
  show ?thesis
    by (rule conjI[OF some habitable_zone_nesting[OF run]])
qed








lemma getHZStatus_fields:
  assumes "starTemp q = starTemp p" "starLum q = starLum p" "semiMajorAxis q = semiMajorAxis p"
  shows "getHZStatus q = getHZStatus p"
  unfolding getHZStatus_def assms by (rule refl)

lemma calculateESI_fields:
  assumes "radius q = radius p" "eqTemp q = eqTemp p" "mass q = mass p"
    "eqTempEstimated q = eqTempEstimated p"
  shows "calculateESI q = calculateESI p"
  unfolding calculateESI_def assms by (rule refl)

lemmas attach_defs = attachHZStatus_def attachESI_def attachObserver_def attachMagnitude_def
  attachMethodInfo_def

lemma enrichPlanet_inputs:
  "starTemp (enrichPlanet f p) = starTemp p"
  "starLum (enrichPlanet f p) = starLum p"
  "semiMajorAxis (enrichPlanet f p) = semiMajorAxis p"
  "radius (enrichPlanet f p) = radius p"
  "eqTemp (enrichPlanet f p) = eqTemp p"
  "mass (enrichPlanet f p) = mass p"
  "eqTempEstimated (enrichPlanet f p) = eqTempEstimated p"
  "ra (enrichPlanet f p) = ra p"
  "dec (enrichPlanet f p) = dec p"
  "vMag (enrichPlanet f p) = vMag p"
  "discoveryMethod (enrichPlanet f p) = discoveryMethod p"
  by (simp_all add: enrichPlanet_def attach_defs split: nullable.splits prod.splits)

lemma enrichPlanet_hzStatus: "hzStatus (enrichPlanet f p) = Some (getHZStatus p)"
  by (simp add: enrichPlanet_def attach_defs split: nullable.splits prod.splits)

lemma enrichPlanet_esi: "esi (enrichPlanet f p) = Some (calculateESI p)"
proof -
  have "esi (enrichPlanet f p) = Some (calculateESI (attachHZStatus p))"
    by (simp add: enrichPlanet_def attachESI_def attachObserver_def attachMagnitude_def
        attachMethodInfo_def split: nullable.splits prod.splits)
  moreover have "calculateESI (attachHZStatus p) = calculateESI p"
    by (rule calculateESI_fields) (simp_all add: attachHZStatus_def)
  ultimately show ?thesis by simp
qed

lemma enrichPlanet_observer:
  "ra p = Val r \<Longrightarrow> dec p = Val d \<Longrightarrow>
     coordinates (enrichPlanet f p) = Some (formatRADec f r d)
     \<and> constellationOf (enrichPlanet f p) = Some (getConstellation r d)
     \<and> observabilityOf (enrichPlanet f p) = Some (getObservability r (Val d))"
  by (simp add: enrichPlanet_def attach_defs split: nullable.splits prod.splits)

lemma enrichPlanet_magnitude:
  "\<not> nullish (vMag p) \<Longrightarrow>
     magnitudeGuidance (enrichPlanet f p) = Some (getMagnitudeGuidance (vMag p))"
  by (simp add: enrichPlanet_def attach_defs split: nullable.splits prod.splits)

lemma enrichPlanet_methodInfo:
  "orNull (discoveryMethod p) = Val n \<Longrightarrow>
     discoveryMethodInfo (enrichPlanet f p) = getDiscoveryMethodInfo (discoveryMethod p)"
  by (simp add: enrichPlanet_def attach_defs split: nullable.splits prod.splits)

text \<open>
  Claim C8. \<open>enrichPlanet\<close> is idempotent: it reads only fields it does not write, so a
  second application attaches the same \<open>hzStatus\<close>, \<open>esi\<close>, coordinates, constellation,
  observability, magnitude guidance and discovery method information.
\<close>

theorem enrichPlanet_idempotent:
  "enrichPlanet numberToString (enrichPlanet numberToString p) = enrichPlanet numberToString p"
proof -
  define q where "q = enrichPlanet numberToString p"
  note inp = enrichPlanet_inputs[of numberToString p, folded q_def]
  have "getHZStatus q = getHZStatus p"
    by (rule getHZStatus_fields) (simp_all add: inp)
  then have hz: "Some (getHZStatus q) = hzStatus q"
    by (simp add: q_def enrichPlanet_hzStatus)
  have s1: "attachHZStatus q = q"
    by (simp add: attachHZStatus_def hz)
  have "calculateESI q = calculateESI p"
    by (rule calculateESI_fields) (simp_all add: inp)
  then have es: "Some (calculateESI q) = esi q"
    by (simp add: q_def enrichPlanet_esi)
  have s2: "attachESI q = q"
    by (simp add: attachESI_def es)
  have s3: "attachObserver numberToString q = q"
  proof (cases "\<exists>r d. ra p = Val r \<and> dec p = Val d")
    case True
    then obtain r d where rd: "ra p = Val r" "dec p = Val d" by blast
    from enrichPlanet_observer[OF rd, of numberToString]
    have "Some (formatRADec numberToString r d) = coordinates q"
      "Some (getConstellation r d) = constellationOf q"
      "Some (getObservability r (Val d)) = observabilityOf q"
      by (simp_all add: q_def)
    then show ?thesis
      using rd by (simp add: attachObserver_def inp)
  next
    case False
    then show ?thesis
      by (cases "ra p"; cases "dec p") (simp_all add: attachObserver_def inp)
  qed
  have s4: "attachMagnitude q = q"
  proof (cases "nullish (vMag p)")
    case True
    then show ?thesis by (simp add: attachMagnitude_def inp)
  next
    case False
    from enrichPlanet_magnitude[OF False, of numberToString]
    have "Some (getMagnitudeGuidance (vMag p)) = magnitudeGuidance q"
      by (simp add: q_def)
    then show ?thesis using False by (simp add: attachMagnitude_def inp)
  qed
  have s5: "attachMethodInfo q = q"
  proof (cases "orNull (discoveryMethod p)")
    case (Val n)
    from enrichPlanet_methodInfo[OF Val, of numberToString]
    have "getDiscoveryMethodInfo (discoveryMethod p) = discoveryMethodInfo q"
      by (simp add: q_def)
    then show ?thesis using Val by (simp add: attachMethodInfo_def inp)
  qed (simp_all add: attachMethodInfo_def inp)
  have "enrichPlanet numberToString q = q"
    by (simp add: enrichPlanet_def s1 s2 s3 s4 s5)
  then show ?thesis by (simp add: q_def)
qed

section \<open>Properties of searchPlanets\<close>

text \<open>The store invariant of a search that started in \<open>h\<close>.\<close>

lemma filterStep_frame:
  assumes "filterStep (r, g) step = (r', g')" "take n g = h" "n \<le> r" "r < length g" "n = length h"
  shows "take n g' = h \<and> n \<le> r' \<and> r' < length g'"
proof (cases step)
  case None
  with assms show ?thesis by simp
next
  case (Some pred)
  with assms have "r' = length g" "g' = g @ [filter pred (g ! r)]"
    by (simp_all add: alloc_def)
  with assms show ?thesis by simp
qed

lemma foldl_filterStep_frame:
  assumes "foldl filterStep (r, g) steps = (r', g')" "take n g = h" "n \<le> r" "r < length g"
    "n = length h"
  shows "take n g' = h \<and> n \<le> r' \<and> r' < length g'"
  using assms
proof (induction steps arbitrary: r g)
  case Nil
  then show ?case by simp
next
  case (Cons step steps)
  obtain r1 g1 where s: "filterStep (r, g) step = (r1, g1)"
    by (cases "filterStep (r, g) step")
  from filterStep_frame[OF s Cons.prems(2,3,4,5)]
  have "take n g1 = h" "n \<le> r1" "r1 < length g1" by simp_all
  moreover from Cons.prems(1) s have "foldl filterStep (r1, g1) steps = (r', g')"
    by simp
  ultimately show ?case
    using Cons.IH Cons.prems(5) by blast
qed

text \<open>
  Claim C10. For every query and filter combination, \<open>searchPlanets\<close> returns an array
  at an address that was not in use before the call, and every array that existed before,
  the catalog among them, is unchanged in length, members and order: the copy, the
  filters and the final sort work on arrays allocated by the search.
\<close>

theorem searchPlanets_leaves_catalog_untouched:
  assumes "PLANET_CATALOG < length h"
    and "searchPlanets h PLANET_CATALOG query fs = (results, h')"
  shows "length h \<le> results \<and> results < length h' \<and> results \<noteq> PLANET_CATALOG
         \<and> h' ! PLANET_CATALOG = h ! PLANET_CATALOG
         \<and> (\<forall>a. a < length h \<longrightarrow> h' ! a = h ! a)"
proof -
  obtain r g where run: "foldl filterStep (alloc h (h ! PLANET_CATALOG)) (filterChain query fs) = (r, g)"
    by (cases "foldl filterStep (alloc h (h ! PLANET_CATALOG)) (filterChain query fs)")
  with assms(2) have res: "results = r"
    and h': "h' = sortInPlace (comparePlanets (orDefault (sortBy fs) ''name'')
                 (orDefault (sortDir fs) ''asc'')) r g"
    by (auto simp: searchPlanets_def)
  have start: "alloc h (h ! PLANET_CATALOG) = (length h, h @ [h ! PLANET_CATALOG])"
    by (simp add: alloc_def)
  have inv: "take (length h) g = h \<and> length h \<le> r \<and> r < length g"
    using foldl_filterStep_frame[OF run[unfolded start], of "length h" h] by simp
  then have "take (length h) h' = h"
    by (simp add: h' sortInPlace_def)
  then have same: "\<And>a. a < length h \<Longrightarrow> h' ! a = h ! a"
    by (metis nth_take)
  from inv have "results < length h'"
    by (simp add: res h' sortInPlace_def)
  with inv res assms(1) same show ?thesis
    by auto
qed

lemmas search_eval = searchResults_def searchPlanets_def filterChain_def guard_def noFilters_def alloc_def
  sortInPlace_def arraySort_def comparePlanets_def comparable_def sortKey_def propertyValue_def
  getProperty_def ownProperties_def orDefault_def truthyString_def stringOf_def exampleHeap_def
  untypedStar_def typedStar_def unknownDistance_def catalogEntry_def examplePlanet_def
  planet.extend_def catalog_planet.fields_def jsLess_def toLowerCase_def lowerChar_def
  stringToNumber_def trim_def isWhitespace_def parseRadix_def splitSign_def parseDecimalLiteral_def
  parseExponent_def isDigit_def digit_chars_def digitValue_def Let_def js_gt_def truthy_def
  ofFlag_def ofObject_def matchesQuery_def

theorem searchPlanets_leaves_catalog_untouched_witness:
  "(0 < length exampleHeap
    \<and> map name (searchResults exampleHeap 0 (Val ''beta'')
                   (noFilters\<lparr> sortBy := Val ''name'', sortDir := Val ''desc'' \<rparr>)) = [''Beta b''])
   \<and> length exampleHeap
        \<le> fst (searchPlanets exampleHeap 0 (Val ''beta'')
                 (noFilters\<lparr> sortBy := Val ''name'', sortDir := Val ''desc'' \<rparr>))
   \<and> fst (searchPlanets exampleHeap 0 (Val ''beta'')
                 (noFilters\<lparr> sortBy := Val ''name'', sortDir := Val ''desc'' \<rparr>)) \<noteq> 0
   \<and> snd (searchPlanets exampleHeap 0 (Val ''beta'')
                 (noFilters\<lparr> sortBy := Val ''name'', sortDir := Val ''desc'' \<rparr>)) ! 0
        = exampleHeap ! 0"
proof -
  let ?fs = "noFilters\<lparr> sortBy := Val ''name'', sortDir := Val ''desc'' \<rparr>"
  have ev: "0 < length exampleHeap
    \<and> map name (searchResults exampleHeap 0 (Val ''beta'') ?fs) = [''Beta b'']"
    by (simp add: search_eval)
  then have valid: "0 < length exampleHeap" by simp
  have run: "searchPlanets exampleHeap 0 (Val ''beta'') ?fs
      = (fst (searchPlanets exampleHeap 0 (Val ''beta'') ?fs),
         snd (searchPlanets exampleHeap 0 (Val ''beta'') ?fs))"
    by simp
  from searchPlanets_leaves_catalog_untouched[OF valid run]
  have frame: "length exampleHeap \<le> fst (searchPlanets exampleHeap 0 (Val ''beta'') ?fs)
    \<and> fst (searchPlanets exampleHeap 0 (Val ''beta'') ?fs) \<noteq> 0
    \<and> snd (searchPlanets exampleHeap 0 (Val ''beta'') ?fs) ! 0 = exampleHeap ! 0"
    by blast
  show ?thesis
    by (rule conjI[OF ev frame])
qed

text \<open>
  Claim C9. With a string-valued sort key the comparator does not put a missing key last:
  the key \<open>null\<close> becomes an infinity, the comparison of a string with an infinity is a
  comparison with \<open>NaN\<close>, and the comparator answers 0 in both orders. A record without
  \<open>starType\<close> that precedes a record with one in the catalog precedes it in the result,
  ascending and descending.
\<close>

theorem null_sort_key_before_string_key:
  "sortKey ''starType'' untypedStar = JNull \<and> sortKey ''starType'' typedStar = JStr ''G2V''
   \<and> comparePlanets ''starType'' ''asc'' untypedStar typedStar = Fin 0
   \<and> comparePlanets ''starType'' ''asc'' typedStar untypedStar = Fin 0
   \<and> map name (searchResults [[untypedStar, typedStar]] 0 Undefined
                  (noFilters\<lparr> sortBy := Val ''starType'', sortDir := Val ''asc'' \<rparr>))
       = [''Alpha b'', ''Beta b'']
   \<and> map name (searchResults [[untypedStar, typedStar]] 0 Undefined
                  (noFilters\<lparr> sortBy := Val ''starType'', sortDir := Val ''desc'' \<rparr>))
       = [''Alpha b'', ''Beta b'']"
  by (simp add: search_eval)

subsection \<open>Numeric sort keys: a missing key sorts last\<close>

lemma insertSorted_set: "set (insertSorted cmp x ys) = insert x (set ys)"
  by (induction ys) auto

lemma arraySort_set: "set (arraySort cmp xs) = set xs"
  by (induction xs) (simp_all add: arraySort_def insertSorted_set)

lemma insertSorted_sorted:
  assumes trans: "\<And>a b c. a \<in> S \<Longrightarrow> b \<in> S \<Longrightarrow> c \<in> S \<Longrightarrow> le a b \<Longrightarrow> le b c \<Longrightarrow> le a c"
    and swap: "\<And>a b. a \<in> S \<Longrightarrow> b \<in> S \<Longrightarrow> js_gt (cmp a b) (Fin 0) \<Longrightarrow> le b a"
    and keep: "\<And>a b. a \<in> S \<Longrightarrow> b \<in> S \<Longrightarrow> \<not> js_gt (cmp a b) (Fin 0) \<Longrightarrow> le a b"
    and "x \<in> S" "set ys \<subseteq> S" "sorted_wrt le ys"
  shows "sorted_wrt le (insertSorted cmp x ys)"
  using assms(4,5,6)
proof (induction ys)
  case Nil
  then show ?case by simp
next
  case (Cons y ys)
  show ?case
  proof (cases "js_gt (cmp x y) (Fin 0)")
    case True
    then have yx: "le y x" using swap Cons.prems by simp
    have "sorted_wrt le (insertSorted cmp x ys)"
      using Cons by simp
    moreover have "\<forall>z\<in>set (insertSorted cmp x ys). le y z"
      using yx Cons.prems by (auto simp: insertSorted_set)
    ultimately show ?thesis using True by simp
  next
    case False
    then have xy: "le x y" using keep Cons.prems by simp
    have "\<forall>z\<in>set ys. le x z"
    proof
      fix z assume z: "z \<in> set ys"
      with Cons.prems have "le y z" by simp
      with xy show "le x z" using trans[of x y z] Cons.prems z by auto
    qed
    with xy Cons.prems False show ?thesis by simp
  qed
qed

lemma arraySort_sorted:
  assumes trans: "\<And>a b c. a \<in> S \<Longrightarrow> b \<in> S \<Longrightarrow> c \<in> S \<Longrightarrow> le a b \<Longrightarrow> le b c \<Longrightarrow> le a c"
    and swap: "\<And>a b. a \<in> S \<Longrightarrow> b \<in> S \<Longrightarrow> js_gt (cmp a b) (Fin 0) \<Longrightarrow> le b a"
    and keep: "\<And>a b. a \<in> S \<Longrightarrow> b \<in> S \<Longrightarrow> \<not> js_gt (cmp a b) (Fin 0) \<Longrightarrow> le a b"
    and "set xs \<subseteq> S"
  shows "sorted_wrt le (arraySort cmp xs)"
  using assms(4)
proof (induction xs)
  case Nil
  then show ?case by (simp add: arraySort_def)
next
  case (Cons x xs)
  then have "sorted_wrt le (arraySort cmp xs)" by simp
  moreover have "set (arraySort cmp xs) \<subseteq> S" using Cons.prems by (simp add: arraySort_set)
  moreover have "x \<in> S" using Cons.prems by simp
  ultimately have "sorted_wrt le (insertSorted cmp x (arraySort cmp xs))"
    by (intro insertSorted_sorted[where S = S and le = le and cmp = cmp])
       (blast intro: trans swap keep)+
  then show ?case by (simp add: arraySort_def)
qed

text \<open>The extended number a numeric or missing key is compared as.\<close>

lemma comparable_numeric:
  assumes "numericOrMissing v"
  shows "\<exists>e. comparable dir v = JNum e \<and> e \<noteq> NaN
             \<and> (isNullish v \<longrightarrow> e = (if dir = ''asc'' then PosInf else NegInf))
             \<and> (\<not> isNullish v \<longrightarrow> (\<exists>x. e = Fin x))"
proof (cases v)
  case (JNum z)
  with assms show ?thesis
    by (cases z) (simp_all add: numericOrMissing_def comparable_def)
qed (use assms in \<open>simp_all add: numericOrMissing_def comparable_def\<close>)

lemma js_lt_trans_le:
  assumes "a \<noteq> NaN" "b \<noteq> NaN" "c \<noteq> NaN" "\<not> js_lt b a" "\<not> js_lt c b"
  shows "\<not> js_lt c a"
  using assms by (cases a; cases b; cases c) auto

lemma js_lt_asym: "js_lt a b \<Longrightarrow> \<not> js_lt b a"
  by (cases a; cases b) auto

lemma comparePlanets_gt:
  assumes "comparable dir (sortKey by a) = JNum ea" "comparable dir (sortKey by b) = JNum eb"
  shows "js_gt (comparePlanets by dir a b) (Fin 0)
           \<longleftrightarrow> (if dir = ''asc'' then js_lt eb ea else js_lt ea eb)"
  using assms js_lt_asym[of ea eb] js_lt_asym[of eb ea]
  by (auto simp: comparePlanets_def jsLess_def js_gt_def Let_def)

text \<open>
  When every sort key is missing or a finite number, no record with a missing key stands
  before a record with a key in the sorted array, whatever the direction.
\<close>

lemma numeric_keys_missing_last:
  assumes num: "\<forall>p\<in>set xs. numericOrMissing (sortKey by p)"
    and "i < j" "j < length (arraySort (comparePlanets by dir) xs)"
  shows "\<not> (isNullish (sortKey by (arraySort (comparePlanets by dir) xs ! i))
            \<and> \<not> isNullish (sortKey by (arraySort (comparePlanets by dir) xs ! j)))"
proof -
  define S where "S = set xs"
  define ext where "ext p = (SOME e. comparable dir (sortKey by p) = JNum e)" for p
  have ext: "comparable dir (sortKey by p) = JNum (ext p) \<and> ext p \<noteq> NaN
      \<and> (isNullish (sortKey by p) \<longrightarrow> ext p = (if dir = ''asc'' then PosInf else NegInf))
      \<and> (\<not> isNullish (sortKey by p) \<longrightarrow> (\<exists>x. ext p = Fin x))" if "p \<in> S" for p
  proof -
    from that num have "numericOrMissing (sortKey by p)" by (simp add: S_def)
    from comparable_numeric[OF this, of dir] obtain e
      where e: "comparable dir (sortKey by p) = JNum e" "e \<noteq> NaN"
        "isNullish (sortKey by p) \<longrightarrow> e = (if dir = ''asc'' then PosInf else NegInf)"
        "\<not> isNullish (sortKey by p) \<longrightarrow> (\<exists>x. e = Fin x)"
      by blast
    then have "ext p = e" by (simp add: ext_def)
    with e show ?thesis by simp
  qed
  define le where "le a b = (if dir = ''asc'' then \<not> js_lt (ext b) (ext a) else \<not> js_lt (ext a) (ext b))"
    for a b
  have gt: "js_gt (comparePlanets by dir a b) (Fin 0) \<longleftrightarrow> \<not> le a b" if "a \<in> S" "b \<in> S" for a b
    using comparePlanets_gt[of dir "by" a "ext a" b "ext b"] ext[OF that(1)] ext[OF that(2)]
    by (simp add: le_def)
  have "sorted_wrt le (arraySort (comparePlanets by dir) xs)"
  proof (rule arraySort_sorted[where S = S])
    fix a b c assume "a \<in> S" "b \<in> S" "c \<in> S" "le a b" "le b c"
    then show "le a c"
      using ext[of a] ext[of b] ext[of c]
        js_lt_trans_le[of "ext a" "ext b" "ext c"] js_lt_trans_le[of "ext c" "ext b" "ext a"]
      by (auto simp: le_def split: if_splits)
  next
    fix a b assume "a \<in> S" "b \<in> S" "js_gt (comparePlanets by dir a b) (Fin 0)"
    then show "le b a"
      using gt[of a b] js_lt_asym[of "ext a" "ext b"] js_lt_asym[of "ext b" "ext a"]
      by (auto simp: le_def split: if_splits)
  next
    fix a b assume "a \<in> S" "b \<in> S" "\<not> js_gt (comparePlanets by dir a b) (Fin 0)"
    then show "le a b" using gt[of a b] by simp
  next
    show "set xs \<subseteq> S" by (simp add: S_def)
  qed
  then have le_ij: "le (arraySort (comparePlanets by dir) xs ! i) (arraySort (comparePlanets by dir) xs ! j)"
    using assms(2,3) by (simp add: sorted_wrt_iff_nth_less)
  have mem: "arraySort (comparePlanets by dir) xs ! i \<in> S" "arraySort (comparePlanets by dir) xs ! j \<in> S"
    using assms(2,3) arraySort_set[of "comparePlanets by dir" xs] nth_mem[of i "arraySort (comparePlanets by dir) xs"]
      nth_mem[of j "arraySort (comparePlanets by dir) xs"]
    by (auto simp: S_def)
  show ?thesis
  proof
    assume bad: "isNullish (sortKey by (arraySort (comparePlanets by dir) xs ! i))
            \<and> \<not> isNullish (sortKey by (arraySort (comparePlanets by dir) xs ! j))"
    from ext[OF mem(1)] ext[OF mem(2)] bad le_ij show False
      by (auto simp: le_def split: if_splits)
  qed
qed

end
